theory Spec2Isabelle
  imports Main "HOL-Library.Sublist" "HOL-Library.AList"
begin

section \<open>Values, diagnostics and errors shared by both resources\<close>

text \<open>
  A plugin-framework attribute value is null, unknown (computed, not yet resolved at plan
  time) or known. The accessors below are the framework's: \<open>ValueString\<close> and
  \<open>ValueBool\<close> give the zero value of the type for a null or unknown value, and
  \<open>ValueEnum\<close> of a string enum is \<open>T(v.ValueString())\<close>.
\<close>

datatype 'a tfval = Null | Unknown | Known 'a

fun IsUnknown :: "'a tfval \<Rightarrow> bool" where
  "IsUnknown Unknown = True"
| "IsUnknown _ = False"

fun ValueString :: "string tfval \<Rightarrow> string" where
  "ValueString (Known s) = s"
| "ValueString _ = []"

fun ValueBool :: "bool tfval \<Rightarrow> bool" where
  "ValueBool (Known b) = b"
| "ValueBool _ = False"

definition ValueEnum :: "string tfval \<Rightarrow> string" where
  "ValueEnum v = ValueString v"

text \<open>
  The flex helpers between the framework's strings and the SDK's \<open>*string\<close>:
  \<open>StringFromFramework\<close> gives nil for a null or unknown value,
  \<open>StringToFramework\<close> gives null for nil, and \<open>StringValueToFramework\<close>
  gives null for the empty string.
\<close>

fun StringFromFramework :: "string tfval \<Rightarrow> string option" where
  "StringFromFramework (Known s) = Some s"
| "StringFromFramework _ = None"

fun StringToFramework :: "string option \<Rightarrow> string tfval" where
  "StringToFramework None = Null"
| "StringToFramework (Some s) = Known s"

definition StringValueToFramework :: "string \<Rightarrow> string tfval" where
  "StringValueToFramework v = (if v = [] then Null else Known v)"

definition StringEnumValue :: "string \<Rightarrow> string tfval" where
  "StringEnumValue v = Known v"

datatype severity = SeverityError | SeverityWarning

record diagnostic =
  Severity :: severity
  Summary :: string
  Detail :: string

definition NewErrorDiagnostic :: "string \<Rightarrow> string \<Rightarrow> diagnostic" where
  "NewErrorDiagnostic s d = \<lparr>Severity = SeverityError, Summary = s, Detail = d\<rparr>"

definition NewWarningDiagnostic :: "string \<Rightarrow> string \<Rightarrow> diagnostic" where
  "NewWarningDiagnostic s d = \<lparr>Severity = SeverityWarning, Summary = s, Detail = d\<rparr>"

definition IsError :: "diagnostic \<Rightarrow> bool" where
  "IsError d = (Severity d = SeverityError)"

definition HasError :: "diagnostic list \<Rightarrow> bool" where
  "HasError ds = list_ex IsError ds"

text \<open>
  The framework's \<open>Diagnostics.Append\<close> adds each diagnostic that the list does not
  hold already, in order; \<open>AddError\<close> appends a new error in the same way.
\<close>

fun Append :: "diagnostic list \<Rightarrow> diagnostic list \<Rightarrow> diagnostic list" where
  "Append diags [] = diags"
| "Append diags (d # ds) = Append (if d \<in> set diags then diags else diags @ [d]) ds"

definition AddError :: "diagnostic list \<Rightarrow> string \<Rightarrow> string \<Rightarrow> diagnostic list" where
  "AddError diags s d = Append diags [NewErrorDiagnostic s d]"

text \<open>
  A Go \<open>error\<close> as the resources see it: what kind of error it is (the classifiers
  \<open>tfresource.NotFound\<close>, \<open>tfawserr.ErrCodeEquals\<close> and \<open>errs.IsA\<close>
  look at nothing else) and the text \<open>err.Error()\<close> prints. A nil error is
  \<open>None\<close>.
\<close>

datatype errkind =
    RetryNotFound
  | EmptyResult
  | TooManyResults
  | APIError string
  | OtherError

record goerror =
  Kind :: errkind
  Message :: string

definition Error :: "goerror \<Rightarrow> string" where
  "Error e = Message e"

text \<open>
  \<open>tfresource.NotFound\<close> holds of an error that is, or converts to, a
  \<open>retry.NotFoundError\<close>; the empty-result and too-many-results errors convert.
\<close>

fun NotFound :: "goerror option \<Rightarrow> bool" where
  "NotFound None = False"
| "NotFound (Some e) = (Kind e = RetryNotFound \<or> Kind e = EmptyResult \<or> Kind e = TooManyResults)"

fun ErrCodeEquals :: "goerror option \<Rightarrow> string \<Rightarrow> bool" where
  "ErrCodeEquals None c = False"
| "ErrCodeEquals (Some e) c = (Kind e = APIError c)"

text \<open>The two S3 error codes, declared elsewhere in the package.\<close>

definition errCodeBucketNotEmpty :: string where
  "errCodeBucketNotEmpty = ''BucketNotEmpty''"

definition errCodeNoSuchBucket :: string where
  "errCodeNoSuchBucket = ''NoSuchBucket''"

text \<open>\<open>%d\<close> of a length or a count.\<close>

fun digit :: "nat \<Rightarrow> char" where
  "digit n = (''0123456789'' ! (n mod 10))"

fun showNat :: "nat \<Rightarrow> string" where
  "showNat n = (if n < 10 then [digit n] else showNat (n div 10) @ [digit n])"

text \<open>A Go call either returns or panics (a nil pointer dereference).\<close>

datatype 'a outcome = Panic | Returns 'a

section \<open>The S3 directory bucket resource\<close>

subsection \<open>Model structs\<close>

text \<open>
  The two model structs of the resource. The bucket model's \<open>Type\<close> field is
  \<open>BucketType\<close> here, since \<open>Type\<close> is the location's, and the embedded region
  model is the one field \<open>WithRegionModel\<close>.
\<close>

record locationInfoModel =
  Name :: "string tfval"
  Type :: "string tfval"

record directoryBucketResourceModel =
  WithRegionModel :: "string tfval"
  ARN :: "string tfval"
  Bucket :: "string tfval"
  DataRedundancy :: "string tfval"
  ForceDestroy :: "bool tfval"
  Location :: "locationInfoModel list tfval"
  ID :: "string tfval"
  BucketType :: "string tfval"

text \<open>
  What the resource takes from the provider and the framework and this file does not
  define: \<open>ToPtr\<close> of a nested-object list (the pointer to its single element, nil
  for none, with its diagnostics), the provider's \<open>RegionalARN\<close>, and the diagnostics
  \<open>State.Set\<close> gives for a model value.
\<close>

record framework =
  ToPtr :: "locationInfoModel list tfval \<Rightarrow> locationInfoModel option \<times> diagnostic list"
  RegionalARN :: "string \<Rightarrow> string \<Rightarrow> string"
  StateSet :: "directoryBucketResourceModel \<Rightarrow> diagnostic list"

subsection \<open>The default of \<open>data_redundancy\<close> and its plan modifier\<close>

definition LocationTypeAvailabilityZone :: string where
  "LocationTypeAvailabilityZone = ''AvailabilityZone''"

definition LocationTypeLocalZone :: string where
  "LocationTypeLocalZone = ''LocalZone''"

definition DataRedundancySingleAvailabilityZone :: string where
  "DataRedundancySingleAvailabilityZone = ''SingleAvailabilityZone''"

definition DataRedundancySingleLocalZone :: string where
  "DataRedundancySingleLocalZone = ''SingleLocalZone''"

definition defaultDirectoryBucketDataRedundancy :: "string \<Rightarrow> string" where
  "defaultDirectoryBucketDataRedundancy locationType =
     (if locationType = LocationTypeLocalZone then DataRedundancySingleLocalZone
      else DataRedundancySingleAvailabilityZone)"

text \<open>
  The request of a string plan modifier: the attribute's planned value, and the whole plan
  as \<open>Plan.Get\<close> decodes it (its diagnostics and the model). The response's
  \<open>PlanValue\<close> and \<open>Diagnostics\<close> are \<open>RespPlanValue\<close> and
  \<open>RespDiagnostics\<close>; the framework hands the modifier a response that holds the
  request's planned value.
\<close>

record StringRequest =
  PlanValue :: "string tfval"
  Plan :: "diagnostic list \<times> directoryBucketResourceModel"

record StringResponse =
  RespPlanValue :: "string tfval"
  RespDiagnostics :: "diagnostic list"

definition PlanModifyString ::
  "framework \<Rightarrow> StringRequest \<Rightarrow> StringResponse \<Rightarrow> StringResponse outcome" where
  "PlanModifyString fw request response =
     (if \<not> IsUnknown (PlanValue request) then Returns response
      else
        let data = snd (Plan request);
            response1 = response\<lparr>RespDiagnostics :=
              Append (RespDiagnostics response) (fst (Plan request))\<rparr>
        in if HasError (RespDiagnostics response1) then Returns response1
        else
          let locationInfo = fst (ToPtr fw (Location data));
              response2 = response1\<lparr>RespDiagnostics :=
                Append (RespDiagnostics response1) (snd (ToPtr fw (Location data)))\<rparr>
          in if HasError (RespDiagnostics response2) then Returns response2
          else
            (case locationInfo of
               None \<Rightarrow> Panic
             | Some li \<Rightarrow>
                 Returns (response2\<lparr>RespPlanValue :=
                   StringValueToFramework
                     (defaultDirectoryBucketDataRedundancy (ValueEnum (Type li)))\<rparr>)))"

subsection \<open>The bucket name pattern and the schema's validators\<close>

text \<open>
  Regular expressions as the pattern needs them. \<open>MatchString\<close> is decided by
  derivatives: \<open>deriv c r\<close> matches what is left of a match of \<open>r\<close> after a leading
  \<open>c\<close>. The pattern of the source begins with \<open>^\<close> and ends with \<open>$\<close> and
  has no flags, so the whole string has to match what stands between them: the anchors
  are the whole-string match of \<open>MatchString\<close>, and \<open>directoryBucketNameRegex\<close>
  is the body.
\<close>

datatype regex =
    NoMatch
  | EmptyMatch
  | CharClass "(char \<times> char) list"
  | Literal string
  | Concat regex regex
  | Alternate regex regex
  | Star regex
  | Plus regex

definition inRange :: "char \<Rightarrow> char \<times> char \<Rightarrow> bool" where
  "inRange c rg = ((of_char (fst rg) :: nat) \<le> of_char c \<and> (of_char c :: nat) \<le> of_char (snd rg))"

definition inClass :: "(char \<times> char) list \<Rightarrow> char \<Rightarrow> bool" where
  "inClass rs c = list_ex (inRange c) rs"

fun nullable :: "regex \<Rightarrow> bool" where
  "nullable NoMatch = False"
| "nullable EmptyMatch = True"
| "nullable (CharClass rs) = False"
| "nullable (Literal s) = (s = [])"
| "nullable (Concat r1 r2) = (nullable r1 \<and> nullable r2)"
| "nullable (Alternate r1 r2) = (nullable r1 \<or> nullable r2)"
| "nullable (Star r) = True"
| "nullable (Plus r) = nullable r"

fun deriv :: "char \<Rightarrow> regex \<Rightarrow> regex" where
  "deriv c NoMatch = NoMatch"
| "deriv c EmptyMatch = NoMatch"
| "deriv c (CharClass rs) = (if inClass rs c then EmptyMatch else NoMatch)"
| "deriv c (Literal []) = NoMatch"
| "deriv c (Literal (x # xs)) = (if c = x then Literal xs else NoMatch)"
| "deriv c (Concat r1 r2) =
     (if nullable r1 then Alternate (Concat (deriv c r1) r2) (deriv c r2)
      else Concat (deriv c r1) r2)"
| "deriv c (Alternate r1 r2) = Alternate (deriv c r1) (deriv c r2)"
| "deriv c (Star r) = Concat (deriv c r) (Star r)"
| "deriv c (Plus r) = Concat (deriv c r) (Star r)"

fun MatchString :: "regex \<Rightarrow> string \<Rightarrow> bool" where
  "MatchString r [] = nullable r"
| "MatchString r (c # cs) = MatchString (deriv c r) cs"

text \<open>The two character classes of the pattern, \<open>[0-9a-z.-]\<close> and \<open>[0-9a-za-z]\<close>.\<close>

definition nameClass :: "(char \<times> char) list" where
  "nameClass = [(CHR ''0'', CHR ''9''), (CHR ''a'', CHR ''z''), (CHR ''.'', CHR ''.''),
                (CHR ''-'', CHR ''-'')]"

definition azClass :: "(char \<times> char) list" where
  "azClass = [(CHR ''0'', CHR ''9''), (CHR ''a'', CHR ''z''), (CHR ''a'', CHR ''z'')]"

definition directoryBucketNameRegex :: regex where
  "directoryBucketNameRegex =
     Concat (Plus (CharClass nameClass))
       (Concat (Literal ''--'')
          (Concat
             (Concat (Plus (CharClass azClass))
                (Plus (Concat (Literal ''-'') (Plus (CharClass azClass)))))
             (Literal ''--x-s3'')))"

text \<open>
  \<open>stringvalidator.RegexMatches\<close>: a null or unknown value is not validated; a known
  one that does not match gives one error.
\<close>

definition RegexMatches :: "regex \<Rightarrow> string \<Rightarrow> string \<Rightarrow> string tfval \<Rightarrow> diagnostic list" where
  "RegexMatches re message path v =
     (case v of
        Known s \<Rightarrow>
          if MatchString re s then []
          else [NewErrorDiagnostic ''Invalid Attribute Value Match''
                  (''Attribute '' @ path @ '' value '' @ message @ '', got: '' @ s)]
      | _ \<Rightarrow> [])"

definition validateBucket :: "string tfval \<Rightarrow> diagnostic list" where
  "validateBucket v =
     RegexMatches directoryBucketNameRegex
       ''must be in the format [bucket_name]--[azid]--x-s3. Use the aws_s3_bucket resource to manage general purpose buckets''
       ''bucket'' v"

text \<open>
  The validators of the \<open>location\<close> block: \<open>listvalidator.SizeAtMost(1)\<close> and
  \<open>listvalidator.IsRequired()\<close>.
\<close>

definition validateLocation :: "locationInfoModel list tfval \<Rightarrow> diagnostic list" where
  "validateLocation v =
     (case v of
        Known xs \<Rightarrow>
          if length xs > 1
          then [NewErrorDiagnostic ''Invalid Attribute Value''
                  (''Attribute location list must contain at most 1 elements, got: '' @
                   showNat (length xs))]
          else []
      | Null \<Rightarrow> [NewErrorDiagnostic ''Missing Block'' ''Block location must have a configuration value'']
      | Unknown \<Rightarrow> [])"

definition ValidateConfig :: "directoryBucketResourceModel \<Rightarrow> diagnostic list" where
  "ValidateConfig config = validateBucket (Bucket config) @ validateLocation (Location config)"

text \<open>
  The pattern in words: a non-empty bucket name part over \<open>[0-9a-z.-]\<close>, two hyphens, a
  zone id of two or more non-empty \<open>[0-9a-z]\<close> segments joined by single hyphens, and the
  suffix \<open>--x-s3\<close>.
\<close>

definition nameChar :: "char \<Rightarrow> bool" where
  "nameChar c = (c \<in> set ''0123456789abcdefghijklmnopqrstuvwxyz.-'')"

definition azChar :: "char \<Rightarrow> bool" where
  "azChar c = (c \<in> set ''0123456789abcdefghijklmnopqrstuvwxyz'')"

definition azSegment :: "string \<Rightarrow> bool" where
  "azSegment w = (w \<noteq> [] \<and> list_all azChar w)"

definition isZoneId :: "string \<Rightarrow> bool" where
  "isZoneId z =
     (\<exists>a ps. z = a @ concat (map (\<lambda>p. CHR ''-'' # p) ps) \<and> azSegment a \<and> ps \<noteq> [] \<and>
        list_all azSegment ps)"

definition isDirectoryBucketName :: "string \<Rightarrow> bool" where
  "isDirectoryBucketName s =
     (\<exists>n z. s = n @ ''--'' @ z @ ''--x-s3'' \<and> n \<noteq> [] \<and> list_all nameChar n \<and> isZoneId z)"

subsection \<open>The remote control plane\<close>

text \<open>
  The S3 Express client is an external collaborator. Its state is an abstract \<open>'r\<close>;
  each operation takes the state and gives its answer and the next state, so two calls of
  the same operation can answer differently. \<open>findBucket\<close> and
  \<open>emptyDirectoryBucket\<close> are the package's helpers over the same client.
  \<open>CreateBucketInput\<close> is the SDK's nested input struct, flattened.
\<close>

record CreateBucketInput =
  InBucket :: "string option"
  InDataRedundancy :: string
  InBucketType :: string
  InLocationName :: "string option"
  InLocationType :: string

record HeadBucketOutput =
  BucketLocationName :: "string option"
  BucketLocationType :: string

record 'r S3ExpressClient =
  CreateBucket :: "CreateBucketInput \<Rightarrow> 'r \<Rightarrow> goerror option \<times> 'r"
  DeleteBucket :: "string option \<Rightarrow> 'r \<Rightarrow> goerror option \<times> 'r"
  findBucket :: "string \<Rightarrow> 'r \<Rightarrow> (goerror + HeadBucketOutput) \<times> 'r"
  emptyDirectoryBucket :: "string \<Rightarrow> 'r \<Rightarrow> goerror option \<times> 'r"

text \<open>
  Every remote call an operation makes is logged with the error it returned, in order.
  The log is what "one remote call" and "retried once" are stated on.
\<close>

datatype call =
    CallCreateBucket CreateBucketInput
  | CallDeleteBucket "string option"
  | CallFindBucket string
  | CallEmptyDirectoryBucket string

record 'r result =
  Diagnostics :: "diagnostic list"
  State :: "directoryBucketResourceModel option"
  Remote :: 'r
  Calls :: "(call \<times> goerror option) list"

definition BucketTypeDirectory :: string where
  "BucketTypeDirectory = ''Directory''"

definition arn :: "framework \<Rightarrow> string \<Rightarrow> string" where
  "arn fw bucket = RegionalARN fw ''s3express'' (''bucket/'' @ bucket)"

text \<open>
  \<open>State.Set\<close> stores the value unless it reports an error; \<open>old\<close> is the
  state the response held before.
\<close>

definition SetState ::
  "framework \<Rightarrow> diagnostic list \<Rightarrow> directoryBucketResourceModel option \<Rightarrow>
   directoryBucketResourceModel \<Rightarrow> 'r \<Rightarrow> (call \<times> goerror option) list \<Rightarrow> 'r result" where
  "SetState fw diags old data r cs =
     \<lparr>Diagnostics = Append diags (StateSet fw data),
      State = (if HasError (StateSet fw data) then old else Some data),
      Remote = r, Calls = cs\<rparr>"

definition NewResourceNotFoundWarningDiagnostic :: "goerror \<Rightarrow> diagnostic" where
  "NewResourceNotFoundWarningDiagnostic e =
     NewWarningDiagnostic ''AWS resource not found during refresh''
       (''Automatically removing from Terraform State instead of returning the error, which may trigger resource recreation. Original error: '' @ Error e)"

subsection \<open>Create, Read and Delete\<close>

text \<open>
  \<open>plan\<close> and \<open>state\<close> are the request's plan and prior state as
  \<open>Plan.Get\<close> and \<open>State.Get\<close> decode them: the diagnostics and the model.
  The response of Create starts with no state, those of Read and Delete with the prior
  state.
\<close>

definition Create ::
  "framework \<Rightarrow> 'r S3ExpressClient \<Rightarrow> diagnostic list \<times> directoryBucketResourceModel \<Rightarrow>
   'r \<Rightarrow> 'r result outcome" where
  "Create fw conn plan r =
     (let data = snd plan; diags1 = Append [] (fst plan)
      in if HasError diags1
         then Returns \<lparr>Diagnostics = diags1, State = None, Remote = r, Calls = []\<rparr>
         else
           let locationInfoData = fst (ToPtr fw (Location data));
               diags2 = Append diags1 (snd (ToPtr fw (Location data)))
           in if HasError diags2
              then Returns \<lparr>Diagnostics = diags2, State = None, Remote = r, Calls = []\<rparr>
              else
                (case locationInfoData of
                   None \<Rightarrow> Panic
                 | Some li \<Rightarrow>
                     let input = \<lparr>InBucket = StringFromFramework (Bucket data),
                                  InDataRedundancy = ValueEnum (DataRedundancy data),
                                  InBucketType = ValueString (BucketType data),
                                  InLocationName = StringFromFramework (Name li),
                                  InLocationType = ValueEnum (Type li)\<rparr>;
                         err = fst (CreateBucket conn input r);
                         r1 = snd (CreateBucket conn input r);
                         cs = [(CallCreateBucket input, err)]
                     in (case err of
                           Some e \<Rightarrow>
                             Returns \<lparr>Diagnostics = AddError diags2
                                 (''creating S3 Directory Bucket ('' @ ValueString (Bucket data) @ '')'')
                                 (Error e),
                               State = None, Remote = r1, Calls = cs\<rparr>
                         | None \<Rightarrow>
                             Returns (SetState fw diags2 None
                               (data\<lparr>ARN := Known (arn fw (ValueString (Bucket data))),
                                     ID := Bucket data\<rparr>) r1 cs))))"

definition Read ::
  "framework \<Rightarrow> 'r S3ExpressClient \<Rightarrow> diagnostic list \<times> directoryBucketResourceModel \<Rightarrow>
   'r \<Rightarrow> 'r result" where
  "Read fw conn state r =
     (let data0 = snd state; diags1 = Append [] (fst state)
      in if HasError diags1
         then \<lparr>Diagnostics = diags1, State = Some data0, Remote = r, Calls = []\<rparr>
         else
           let data = data0\<lparr>Bucket := ID data0\<rparr>;
               found = fst (findBucket conn (ValueString (Bucket data)) r);
               r1 = snd (findBucket conn (ValueString (Bucket data)) r);
               err = (case found of Inl e \<Rightarrow> Some e | Inr _ \<Rightarrow> None);
               cs = [(CallFindBucket (ValueString (Bucket data)), err)]
           in (case found of
                 Inl e \<Rightarrow>
                   if NotFound (Some e)
                   then \<lparr>Diagnostics = Append diags1 [NewResourceNotFoundWarningDiagnostic e],
                         State = None, Remote = r1, Calls = cs\<rparr>
                   else \<lparr>Diagnostics = AddError diags1
                           (''reading S3 Directory Bucket ('' @ ValueString (ID data) @ '')'')
                           (Error e),
                         State = Some data0, Remote = r1, Calls = cs\<rparr>
               | Inr output \<Rightarrow>
                   SetState fw diags1 (Some data0)
                     (data\<lparr>ARN := Known (arn fw (ValueString (Bucket data))),
                           DataRedundancy := StringEnumValue
                             (defaultDirectoryBucketDataRedundancy (BucketLocationType output)),
                           Location := Known
                             [\<lparr>Name = StringToFramework (BucketLocationName output),
                               Type = StringEnumValue (BucketLocationType output)\<rparr>],
                           BucketType := StringEnumValue BucketTypeDirectory\<rparr>) r1 cs))"

text \<open>
  The tail of Delete, after the first call and the drain: \<open>err\<close> is the error of
  the last delete call made.
\<close>

definition DeleteFinish ::
  "directoryBucketResourceModel \<Rightarrow> diagnostic list \<Rightarrow> goerror option \<Rightarrow> 'r \<Rightarrow>
   (call \<times> goerror option) list \<Rightarrow> 'r result" where
  "DeleteFinish data diags err r cs =
     (if ErrCodeEquals err errCodeNoSuchBucket
      then \<lparr>Diagnostics = diags, State = Some data, Remote = r, Calls = cs\<rparr>
      else
        (case err of
           Some e \<Rightarrow>
             \<lparr>Diagnostics = AddError diags
                (''deleting S3 Directory Bucket ('' @ ValueString (ID data) @ '')'') (Error e),
              State = Some data, Remote = r, Calls = cs\<rparr>
         | None \<Rightarrow> \<lparr>Diagnostics = diags, State = Some data, Remote = r, Calls = cs\<rparr>))"

definition Delete ::
  "'r S3ExpressClient \<Rightarrow> diagnostic list \<times> directoryBucketResourceModel \<Rightarrow> 'r \<Rightarrow> 'r result" where
  "Delete conn state r =
     (let data = snd state; diags1 = Append [] (fst state)
      in if HasError diags1
         then \<lparr>Diagnostics = diags1, State = Some data, Remote = r, Calls = []\<rparr>
         else
           let err = fst (DeleteBucket conn (StringFromFramework (ID data)) r);
               r1 = snd (DeleteBucket conn (StringFromFramework (ID data)) r);
               cs1 = [(CallDeleteBucket (StringFromFramework (ID data)), err)]
           in if ErrCodeEquals err errCodeBucketNotEmpty
              then
                if ValueBool (ForceDestroy data)
                then
                let err2 = fst (emptyDirectoryBucket conn (ValueString (ID data)) r1);
                    r2 = snd (emptyDirectoryBucket conn (ValueString (ID data)) r1);
                    cs2 = cs1 @ [(CallEmptyDirectoryBucket (ValueString (ID data)), err2)]
                in (case err2 of
                      Some e \<Rightarrow>
                        \<lparr>Diagnostics = AddError diags1
                           (''emptying S3 Directory Bucket ('' @ ValueString (ID data) @ '')'')
                           (Error e),
                         State = Some data, Remote = r2, Calls = cs2\<rparr>
                    | None \<Rightarrow>
                        let err3 = fst (DeleteBucket conn (StringFromFramework (ID data)) r2);
                            r3 = snd (DeleteBucket conn (StringFromFramework (ID data)) r2)
                        in DeleteFinish data diags1 err3 r3
                             (cs2 @ [(CallDeleteBucket (StringFromFramework (ID data)), err3)]))
                else DeleteFinish data diags1 err r1 cs1
              else DeleteFinish data diags1 err r1 cs1)"

text \<open>
  After a Delete that reported no error the framework removes the resource from state;
  after one that did, the prior state stands.
\<close>

definition DeleteResource ::
  "'r S3ExpressClient \<Rightarrow> diagnostic list \<times> directoryBucketResourceModel \<Rightarrow> 'r \<Rightarrow> 'r result" where
  "DeleteResource conn state r =
     (let res = Delete conn state r
      in if HasError (Diagnostics res) then res else res\<lparr>State := None\<rparr>)"

section \<open>The AppFlow connector profile resource\<close>

subsection \<open>Untyped values and the remote structs\<close>

text \<open>
  The SDK's \<open>any\<close>, for the values the flatteners build: strings, numbers, booleans,
  \<open>[]any\<close>, \<open>map[string]any\<close>, and the \<open>[]string\<close> and
  \<open>map[string]string\<close> values stored as they come from the response. A Go map is an
  association list; \<open>m[k] = v\<close> is \<open>AList.update k v m\<close>.
\<close>

datatype any =
    ANil
  | AString string
  | AInt int
  | ABool bool
  | AStrings "string list"
  | AStringMap "(string \<times> string) list"
  | AList "any list"
  | AMap "(string \<times> any) list"

definition ToString :: "string option \<Rightarrow> string" where
  "ToString p = (case p of None \<Rightarrow> [] | Some s \<Rightarrow> s)"

definition ToInt32 :: "int option \<Rightarrow> int" where
  "ToInt32 p = (case p of None \<Rightarrow> 0 | Some n \<Rightarrow> n)"

text \<open>
  The response structs, with the fields the flatteners read. A pointer field is an
  \<open>option\<close>. The Datadog, Dynatrace, Infor Nexus, Marketo, ServiceNow, Slack, Veeva and
  Zendesk properties are read through \<open>InstanceUrl\<close> only; the Amplitude, Google
  Analytics, Honeycode, Singular and Trend Micro properties are only tested for nil.
\<close>

record InstanceUrlProperties =
  InstanceUrl :: "string option"

record SalesforceConnectorProfileProperties = InstanceUrlProperties +
  IsSandboxEnvironment :: bool
  UsePrivateLinkForMetadataAndAuthorization :: bool

record OAuthProperties =
  AuthCodeUrl :: "string option"
  OAuthScopes :: "string list"
  TokenUrl :: "string option"

record OAuth2Properties =
  OAuth2GrantType :: string
  TokenUrl :: "string option"
  TokenUrlCustomProperties :: "(string \<times> string) list"

record CustomConnectorProfileProperties =
  OAuth2Properties :: "OAuth2Properties option"
  ProfileProperties :: "(string \<times> string) list option"

record RedshiftConnectorProfileProperties =
  BucketName :: "string option"
  BucketPrefix :: "string option"
  DatabaseUrl :: "string option"
  RoleArn :: "string option"
  ClusterIdentifier :: "string option"
  DataApiRoleArn :: "string option"
  DatabaseName :: "string option"

record SAPODataConnectorProfileProperties =
  ApplicationHostUrl :: "string option"
  ApplicationServicePath :: "string option"
  ClientNumber :: "string option"
  PortNumber :: "int option"
  LogonLanguage :: "string option"
  OAuthProperties :: "OAuthProperties option"
  PrivateLinkServiceName :: "string option"

record SnowflakeConnectorProfileProperties =
  AccountName :: "string option"
  BucketName :: "string option"
  BucketPrefix :: "string option"
  Region :: "string option"
  Stage :: "string option"
  Warehouse :: "string option"

record ConnectorProfileProperties =
  Amplitude :: "unit option"
  CustomConnector :: "CustomConnectorProfileProperties option"
  Datadog :: "InstanceUrlProperties option"
  Dynatrace :: "InstanceUrlProperties option"
  GoogleAnalytics :: "unit option"
  Honeycode :: "unit option"
  InforNexus :: "InstanceUrlProperties option"
  Marketo :: "InstanceUrlProperties option"
  Redshift :: "RedshiftConnectorProfileProperties option"
  SAPOData :: "SAPODataConnectorProfileProperties option"
  Salesforce :: "SalesforceConnectorProfileProperties option"
  ServiceNow :: "InstanceUrlProperties option"
  Singular :: "unit option"
  Slack :: "InstanceUrlProperties option"
  Snowflake :: "SnowflakeConnectorProfileProperties option"
  Trendmicro :: "unit option"
  Veeva :: "InstanceUrlProperties option"
  Zendesk :: "InstanceUrlProperties option"

record ConnectorProfile =
  ConnectorProfileArn :: "string option"
  ConnectionMode :: string
  ConnectorLabel :: "string option"
  ConnectorProfileName :: "string option"
  ConnectorProfileProperties :: "ConnectorProfileProperties option"
  ConnectorType :: string
  CredentialsArn :: "string option"

subsection \<open>The flatteners\<close>

definition flattenOAuthProperties :: "OAuthProperties \<Rightarrow> any list" where
  "flattenOAuthProperties properties =
     (let m = [];
          m = AList.update ''auth_code_url'' (AString (ToString (AuthCodeUrl properties))) m;
          m = AList.update ''oauth_scopes'' (AStrings (OAuthScopes properties)) m;
          m = AList.update ''token_url'' (AString (ToString (OAuthProperties.TokenUrl properties))) m
      in [AMap m])"

definition flattenOAuth2Properties :: "OAuth2Properties \<Rightarrow> any list" where
  "flattenOAuth2Properties properties =
     (let m = [];
          m = AList.update ''oauth2_grant_type'' (AString (OAuth2GrantType properties)) m;
          m = AList.update ''token_url'' (AString (ToString (OAuth2Properties.TokenUrl properties))) m;
          m = AList.update ''token_url_custom_properties''
                (AStringMap (TokenUrlCustomProperties properties)) m
      in [AMap m])"

definition flattenRedshiftConnectorProfileProperties ::
  "RedshiftConnectorProfileProperties \<Rightarrow> any list" where
  "flattenRedshiftConnectorProfileProperties properties =
     (let m = [];
          m = AList.update ''bucket_name'' (AString (ToString (RedshiftConnectorProfileProperties.BucketName properties))) m;
          m = (if RedshiftConnectorProfileProperties.BucketPrefix properties \<noteq> None
               then AList.update ''bucket_prefix''
                      (AString (ToString (RedshiftConnectorProfileProperties.BucketPrefix properties))) m
               else m);
          m = (if DatabaseUrl properties \<noteq> None
               then AList.update ''database_url'' (AString (ToString (DatabaseUrl properties))) m
               else m);
          m = AList.update ''role_arn'' (AString (ToString (RoleArn properties))) m;
          m = AList.update ''cluster_identifier''
                (AString (ToString (ClusterIdentifier properties))) m;
          m = AList.update ''data_api_role_arn'' (AString (ToString (DataApiRoleArn properties))) m;
          m = AList.update ''database_name'' (AString (ToString (DatabaseName properties))) m
      in [AMap m])"

definition flattenCustomConnectorProfileProperties ::
  "CustomConnectorProfileProperties \<Rightarrow> any list" where
  "flattenCustomConnectorProfileProperties properties =
     (let m = [];
          m = (case OAuth2Properties properties of
                 Some p \<Rightarrow> AList.update ''oauth2_properties'' (AList (flattenOAuth2Properties p)) m
               | None \<Rightarrow> m);
          m = (case ProfileProperties properties of
                 Some pp \<Rightarrow> AList.update ''profile_properties'' (AStringMap pp) m
               | None \<Rightarrow> m)
      in [AMap m])"

definition flattenSalesforceConnectorProfileProperties ::
  "SalesforceConnectorProfileProperties \<Rightarrow> any list" where
  "flattenSalesforceConnectorProfileProperties properties =
     (let m = [];
          m = (if InstanceUrl properties \<noteq> None
               then AList.update ''instance_url'' (AString (ToString (InstanceUrl properties))) m
               else m);
          m = AList.update ''is_sandbox_environment'' (ABool (IsSandboxEnvironment properties)) m;
          m = AList.update ''use_privatelink_for_metadata_and_authorization''
                (ABool (UsePrivateLinkForMetadataAndAuthorization properties)) m
      in [AMap m])"

definition flattenSAPODataConnectorProfileProperties ::
  "SAPODataConnectorProfileProperties \<Rightarrow> any list" where
  "flattenSAPODataConnectorProfileProperties properties =
     (let m = [];
          m = AList.update ''application_host_url''
                (AString (ToString (ApplicationHostUrl properties))) m;
          m = AList.update ''application_service_path''
                (AString (ToString (ApplicationServicePath properties))) m;
          m = AList.update ''client_number'' (AString (ToString (ClientNumber properties))) m;
          m = AList.update ''port_number'' (AInt (ToInt32 (PortNumber properties))) m;
          m = (if LogonLanguage properties \<noteq> None
               then AList.update ''logon_language'' (AString (ToString (LogonLanguage properties))) m
               else m);
          m = (case OAuthProperties properties of
                 Some p \<Rightarrow> AList.update ''oauth_properties'' (AList (flattenOAuthProperties p)) m
               | None \<Rightarrow> m);
          m = (if PrivateLinkServiceName properties \<noteq> None
               then AList.update ''private_link_service_name''
                      (AString (ToString (PrivateLinkServiceName properties))) m
               else m)
      in [AMap m])"

definition flattenSnowflakeConnectorProfileProperties ::
  "SnowflakeConnectorProfileProperties \<Rightarrow> any list" where
  "flattenSnowflakeConnectorProfileProperties properties =
     (let m = [];
          m = (if AccountName properties \<noteq> None
               then AList.update ''account_name'' (AString (ToString (AccountName properties))) m
               else m);
          m = AList.update ''bucket_name'' (AString (ToString (SnowflakeConnectorProfileProperties.BucketName properties))) m;
          m = (if SnowflakeConnectorProfileProperties.BucketPrefix properties \<noteq> None
               then AList.update ''bucket_prefix''
                      (AString (ToString (SnowflakeConnectorProfileProperties.BucketPrefix properties))) m
               else m);
          m = (if Region properties \<noteq> None
               then AList.update ''region'' (AString (ToString (Region properties))) m
               else m);
          m = AList.update ''stage'' (AString (ToString (Stage properties))) m;
          m = AList.update ''warehouse'' (AString (ToString (Warehouse properties))) m
      in [AMap m])"

text \<open>
  \<open>flattenConnectorProfileProperties\<close> makes one map \<open>m\<close> and stores that same map
  under every connector that has no flattener of its own, writing \<open>instance_url\<close>
  into it as it goes. All those entries alias \<open>m\<close>, so what a caller reads under each
  of them is \<open>m\<close> as the function leaves it: \<open>sharedMap\<close>.
\<close>

definition setInstanceUrl ::
  "InstanceUrlProperties option \<Rightarrow> (string \<times> any) list \<Rightarrow> (string \<times> any) list" where
  "setInstanceUrl p m =
     (case p of
        Some q \<Rightarrow> AList.update ''instance_url'' (AString (ToString (InstanceUrl q))) m
      | None \<Rightarrow> m)"

definition sharedMap :: "ConnectorProfileProperties \<Rightarrow> (string \<times> any) list" where
  "sharedMap cpp =
     (let m = [];
          m = setInstanceUrl (Datadog cpp) m;
          m = setInstanceUrl (Dynatrace cpp) m;
          m = setInstanceUrl (InforNexus cpp) m;
          m = setInstanceUrl (Marketo cpp) m;
          m = setInstanceUrl (ServiceNow cpp) m;
          m = setInstanceUrl (Slack cpp) m;
          m = setInstanceUrl (Veeva cpp) m;
          m = setInstanceUrl (Zendesk cpp) m
      in m)"

definition flattenConnectorProfileProperties :: "ConnectorProfileProperties \<Rightarrow> any list" where
  "flattenConnectorProfileProperties cpp =
     (let m = AList [AMap (sharedMap cpp)];
          result = [];
          result = (if Amplitude cpp \<noteq> None then AList.update ''amplitude'' m result else result);
          result = (case CustomConnector cpp of
                      Some p \<Rightarrow> AList.update ''custom_connector''
                                 (AList (flattenCustomConnectorProfileProperties p)) result
                    | None \<Rightarrow> result);
          result = (if Datadog cpp \<noteq> None then AList.update ''datadog'' m result else result);
          result = (if Dynatrace cpp \<noteq> None then AList.update ''dynatrace'' m result else result);
          result = (if GoogleAnalytics cpp \<noteq> None
                    then AList.update ''google_analytics'' m result else result);
          result = (if Honeycode cpp \<noteq> None then AList.update ''honeycode'' m result else result);
          result = (if InforNexus cpp \<noteq> None then AList.update ''infor_nexus'' m result else result);
          result = (if Marketo cpp \<noteq> None then AList.update ''marketo'' m result else result);
          result = (case Redshift cpp of
                      Some p \<Rightarrow> AList.update ''redshift''
                                 (AList (flattenRedshiftConnectorProfileProperties p)) result
                    | None \<Rightarrow> result);
          result = (case SAPOData cpp of
                      Some p \<Rightarrow> AList.update ''sapo_data''
                                 (AList (flattenSAPODataConnectorProfileProperties p)) result
                    | None \<Rightarrow> result);
          result = (case Salesforce cpp of
                      Some p \<Rightarrow> AList.update ''salesforce''
                                 (AList (flattenSalesforceConnectorProfileProperties p)) result
                    | None \<Rightarrow> result);
          result = (if ServiceNow cpp \<noteq> None then AList.update ''service_now'' m result else result);
          result = (if Singular cpp \<noteq> None then AList.update ''singular'' m result else result);
          result = (if Slack cpp \<noteq> None then AList.update ''slack'' m result else result);
          result = (case Snowflake cpp of
                      Some p \<Rightarrow> AList.update ''snowflake''
                                 (AList (flattenSnowflakeConnectorProfileProperties p)) result
                    | None \<Rightarrow> result);
          result = (if Trendmicro cpp \<noteq> None then AList.update ''trendmicro'' m result else result);
          result = (if Veeva cpp \<noteq> None then AList.update ''veeva'' m result else result);
          result = (if Zendesk cpp \<noteq> None then AList.update ''zendesk'' m result else result)
      in [AMap result])"

definition flattenConnectorProfileConfig :: "ConnectorProfileProperties \<Rightarrow> any list \<Rightarrow> any list" where
  "flattenConnectorProfileConfig cpp cpc =
     (let m = [];
          m = AList.update ''connector_profile_properties''
                (AList (flattenConnectorProfileProperties cpp)) m;
          m = AList.update ''connector_profile_credentials'' (AList cpc) m
      in [AMap m])"

subsection \<open>Resource data and the AppFlow client\<close>

text \<open>
  \<open>schema.ResourceData\<close>, typed by the resource's schema: the id, the new-resource
  mark, and one field per top-level attribute (\<open>d.Get\<close> of a string attribute gives a
  string, the empty string when unset; \<open>d.Set\<close> of a nil \<open>*string\<close> stores the
  zero value). The nested \<open>connector_profile_config\<close> block is a list of untyped
  values.
\<close>

record ResourceData =
  Id :: string
  IsNewResource :: bool
  attr_arn :: string
  attr_connection_mode :: string
  attr_connector_label :: string
  attr_connector_profile_config :: "any list"
  attr_connector_type :: string
  attr_credentials_arn :: string
  attr_kms_arn :: string
  attr_name :: string

text \<open>
  \<open>d.Get("connector_profile_config.0.connector_profile_credentials").([]any)\<close>: the
  list stored under that key of the first element of the block, and the empty list when
  the path leads nowhere.
\<close>

definition Get_connector_profile_credentials :: "ResourceData \<Rightarrow> any list" where
  "Get_connector_profile_credentials d =
     (case attr_connector_profile_config d of
        AMap m # _ \<Rightarrow>
          (case map_of m ''connector_profile_credentials'' of
             Some (AList cpc) \<Rightarrow> cpc
           | _ \<Rightarrow> [])
      | _ \<Rightarrow> [])"

definition Get_connector_profile_properties :: "ResourceData \<Rightarrow> any list" where
  "Get_connector_profile_properties d =
     (case attr_connector_profile_config d of
        AMap m # _ \<Rightarrow>
          (case map_of m ''connector_profile_properties'' of
             Some (AList cpp) \<Rightarrow> cpp
           | _ \<Rightarrow> [])
      | _ \<Rightarrow> [])"

text \<open>
  The request structs. \<open>'c\<close> is the SDK's \<open>ConnectorProfileConfig\<close>, which
  \<open>expandConnectorProfileConfig\<close> builds field by field from the block; nothing below
  depends on how, so the expander is a parameter of Create and Update.
\<close>

record 'c CreateConnectorProfileInput =
  ConnectionMode :: string
  ConnectorProfileName :: "string option"
  ConnectorType :: string
  ConnectorLabel :: "string option"
  ConnectorProfileConfig :: "'c option"
  KmsArn :: "string option"

record 'c UpdateConnectorProfileInput =
  ConnectionMode :: string
  ConnectorProfileName :: "string option"
  ConnectorProfileConfig :: "'c option"

record ('c, 'r) AppFlowClient =
  CreateConnectorProfile :: "'c CreateConnectorProfileInput \<Rightarrow> 'r \<Rightarrow> goerror option \<times> 'r"
  UpdateConnectorProfile :: "'c UpdateConnectorProfileInput \<Rightarrow> 'r \<Rightarrow> goerror option \<times> 'r"
  DeleteConnectorProfile :: "string option \<Rightarrow> 'r \<Rightarrow> goerror option \<times> 'r"
  DescribeConnectorProfiles ::
    "string list \<Rightarrow> 'r \<Rightarrow> (ConnectorProfile list option \<times> goerror option) \<times> 'r"

datatype 'c appflowcall =
    CallCreateConnectorProfile "'c CreateConnectorProfileInput"
  | CallUpdateConnectorProfile "'c UpdateConnectorProfileInput"
  | CallDeleteConnectorProfile "string option"
  | CallDescribeConnectorProfiles "string list"

record ('c, 'r) sdkresult =
  Diags :: "diagnostic list"
  Data :: ResourceData
  Conn :: 'r
  Log :: "('c appflowcall \<times> goerror option) list"

text \<open>\<open>sdkdiag.AppendErrorf\<close>: one more error whose summary is the formatted text.\<close>

definition AppendErrorf :: "diagnostic list \<Rightarrow> string \<Rightarrow> diagnostic list" where
  "AppendErrorf diags text = diags @ [NewErrorDiagnostic text []]"

definition NewEmptyResultError :: goerror where
  "NewEmptyResultError = \<lparr>Kind = EmptyResult, Message = ''empty result''\<rparr>"

definition NewTooManyResultsError :: "nat \<Rightarrow> goerror" where
  "NewTooManyResultsError n =
     \<lparr>Kind = TooManyResults, Message = ''too many results: wanted 1, got '' @ showNat n\<rparr>"

definition AssertSingleValueResult :: "'a list \<Rightarrow> 'a option \<times> goerror option" where
  "AssertSingleValueResult a =
     (case a of
        [] \<Rightarrow> (None, Some NewEmptyResultError)
      | [x] \<Rightarrow> (Some x, None)
      | _ \<Rightarrow> (None, Some (NewTooManyResultsError (length a))))"

definition IsA_ResourceNotFoundException :: "goerror option \<Rightarrow> bool" where
  "IsA_ResourceNotFoundException err = ErrCodeEquals err ''ResourceNotFoundException''"

subsection \<open>Find, Read, Create, Update and Delete\<close>

definition findConnectorProfileByName ::
  "('c, 'r) AppFlowClient \<Rightarrow> string \<Rightarrow> 'r \<Rightarrow>
   (ConnectorProfile option \<times> goerror option) \<times> 'r \<times> ('c appflowcall \<times> goerror option) list" where
  "findConnectorProfileByName conn name r =
     (let output = fst (fst (DescribeConnectorProfiles conn [name] r));
          err = snd (fst (DescribeConnectorProfiles conn [name] r));
          r1 = snd (DescribeConnectorProfiles conn [name] r);
          cs = [(CallDescribeConnectorProfiles [name], err)]
      in (case err of
            Some e \<Rightarrow> ((None, Some e), r1, cs)
          | None \<Rightarrow>
              (case output of
                 None \<Rightarrow> ((None, Some NewEmptyResultError), r1, cs)
               | Some details \<Rightarrow>
                   if length details = 0 then ((None, Some NewEmptyResultError), r1, cs)
                   else (AssertSingleValueResult details, r1, cs))))"

definition resourceConnectorProfileRead ::
  "('c, 'r) AppFlowClient \<Rightarrow> ResourceData \<Rightarrow> 'r \<Rightarrow> ('c, 'r) sdkresult outcome" where
  "resourceConnectorProfileRead conn d r =
     (let connectorProfile = fst (fst (findConnectorProfileByName conn (Id d) r));
          err = snd (fst (findConnectorProfileByName conn (Id d) r));
          r1 = fst (snd (findConnectorProfileByName conn (Id d) r));
          cs = snd (snd (findConnectorProfileByName conn (Id d) r))
      in if \<not> IsNewResource d \<and> NotFound err
         then Returns \<lparr>Diags = [], Data = d\<lparr>Id := []\<rparr>, Conn = r1, Log = cs\<rparr>
         else
           (case err of
              Some e \<Rightarrow>
                Returns \<lparr>Diags = AppendErrorf []
                           (''reading AppFlow Connector Profile ('' @ Id d @ ''): '' @ Error e),
                         Data = d, Conn = r1, Log = cs\<rparr>
            | None \<Rightarrow>
                (case connectorProfile of
                   None \<Rightarrow> Panic
                 | Some cp \<Rightarrow>
                     let credentials = Get_connector_profile_credentials d;
                         d = d\<lparr>attr_arn := ToString (ConnectorProfileArn cp)\<rparr>;
                         d = d\<lparr>attr_connection_mode := ConnectorProfile.ConnectionMode cp\<rparr>;
                         d = d\<lparr>attr_connector_label := ToString (ConnectorProfile.ConnectorLabel cp)\<rparr>
                     in (case ConnectorProfileProperties cp of
                           None \<Rightarrow> Panic
                         | Some cpp \<Rightarrow>
                             let d = d\<lparr>attr_connector_profile_config :=
                                       flattenConnectorProfileConfig cpp credentials\<rparr>;
                                 d = d\<lparr>attr_connector_type := ConnectorProfile.ConnectorType cp\<rparr>;
                                 d = d\<lparr>attr_credentials_arn := ToString (CredentialsArn cp)\<rparr>;
                                 d = d\<lparr>attr_name :=
                                       ToString (ConnectorProfile.ConnectorProfileName cp)\<rparr>
                             in Returns \<lparr>Diags = [], Data = d, Conn = r1, Log = cs\<rparr>))))"

text \<open>
  The guard on the block that Create and Update share:
  \<open>ok && len(v.([]any)) > 0 && v.([]any)[0] != nil\<close>, then the unchecked assertion
  \<open>v.([]any)[0].(map[string]any)\<close>, which panics on anything but a map.
\<close>

definition expandConfigOf ::
  "((string \<times> any) list \<Rightarrow> 'c) \<Rightarrow> ResourceData \<Rightarrow> 'c option outcome" where
  "expandConfigOf expandConnectorProfileConfig d =
     (case attr_connector_profile_config d of
        [] \<Rightarrow> Returns None
      | ANil # _ \<Rightarrow> Returns None
      | AMap m # _ \<Rightarrow> Returns (Some (expandConnectorProfileConfig m))
      | _ # _ \<Rightarrow> Panic)"

definition resourceConnectorProfileCreate ::
  "((string \<times> any) list \<Rightarrow> 'c) \<Rightarrow> ('c, 'r) AppFlowClient \<Rightarrow> ResourceData \<Rightarrow> 'r \<Rightarrow>
   ('c, 'r) sdkresult outcome" where
  "resourceConnectorProfileCreate expandConnectorProfileConfig conn d r =
     (let name = attr_name d
      in (case expandConfigOf expandConnectorProfileConfig d of
            Panic \<Rightarrow> Panic
          | Returns config \<Rightarrow>
              let input = \<lparr>CreateConnectorProfileInput.ConnectionMode = attr_connection_mode d,
                           CreateConnectorProfileInput.ConnectorProfileName = Some name,
                           ConnectorType = attr_connector_type d,
                           ConnectorLabel =
                             (if length (attr_connector_label d) > 0
                              then Some (attr_connector_label d) else None),
                           CreateConnectorProfileInput.ConnectorProfileConfig = config,
                           KmsArn =
                             (if length (attr_kms_arn d) > 0 then Some (attr_kms_arn d) else None)\<rparr>;
                  err = fst (CreateConnectorProfile conn input r);
                  r1 = snd (CreateConnectorProfile conn input r);
                  cs = [(CallCreateConnectorProfile input, err)]
              in (case err of
                    Some e \<Rightarrow>
                      Returns \<lparr>Diags = AppendErrorf []
                                 (''creating AppFlow Connector Profile ('' @ name @ ''): '' @ Error e),
                               Data = d, Conn = r1, Log = cs\<rparr>
                  | None \<Rightarrow>
                      (case resourceConnectorProfileRead conn (d\<lparr>Id := name\<rparr>) r1 of
                         Panic \<Rightarrow> Panic
                       | Returns res \<Rightarrow> Returns (res\<lparr>Log := cs @ Log res\<rparr>)))))"

definition resourceConnectorProfileUpdate ::
  "((string \<times> any) list \<Rightarrow> 'c) \<Rightarrow> ('c, 'r) AppFlowClient \<Rightarrow> ResourceData \<Rightarrow> 'r \<Rightarrow>
   ('c, 'r) sdkresult outcome" where
  "resourceConnectorProfileUpdate expandConnectorProfileConfig conn d r =
     (let name = attr_name d
      in (case expandConfigOf expandConnectorProfileConfig d of
            Panic \<Rightarrow> Panic
          | Returns config \<Rightarrow>
              let input = \<lparr>UpdateConnectorProfileInput.ConnectionMode = attr_connection_mode d,
                           UpdateConnectorProfileInput.ConnectorProfileName = Some name,
                           UpdateConnectorProfileInput.ConnectorProfileConfig = config\<rparr>;
                  err = fst (UpdateConnectorProfile conn input r);
                  r1 = snd (UpdateConnectorProfile conn input r);
                  cs = [(CallUpdateConnectorProfile input, err)]
              in (case err of
                    Some e \<Rightarrow>
                      Returns \<lparr>Diags = AppendErrorf []
                                 (''updating AppFlow Connector Profile ('' @ Id d @ ''): '' @ Error e),
                               Data = d, Conn = r1, Log = cs\<rparr>
                  | None \<Rightarrow>
                      (case resourceConnectorProfileRead conn d r1 of
                         Panic \<Rightarrow> Panic
                       | Returns res \<Rightarrow> Returns (res\<lparr>Log := cs @ Log res\<rparr>)))))"

definition resourceConnectorProfileDelete ::
  "('c, 'r) AppFlowClient \<Rightarrow> ResourceData \<Rightarrow> 'r \<Rightarrow> ('c, 'r) sdkresult" where
  "resourceConnectorProfileDelete conn d r =
     (let input = Some (attr_name d);
          err = fst (DeleteConnectorProfile conn input r);
          r1 = snd (DeleteConnectorProfile conn input r);
          cs = [(CallDeleteConnectorProfile input, err)]
      in if IsA_ResourceNotFoundException err
         then \<lparr>Diags = [], Data = d, Conn = r1, Log = cs\<rparr>
         else
           (case err of
              Some e \<Rightarrow>
                \<lparr>Diags = AppendErrorf []
                   (''deleting AppFlow Connector Profile ('' @ Id d @ ''): '' @ Error e),
                 Data = d, Conn = r1, Log = cs\<rparr>
            | None \<Rightarrow> \<lparr>Diags = [], Data = d, Conn = r1, Log = cs\<rparr>))"


section \<open>The languages of the patterns\<close>

text \<open>
  What a regular expression denotes, independently of how \<open>MatchString\<close> decides it:
  the set of strings it matches.
\<close>

definition conc :: "string set \<Rightarrow> string set \<Rightarrow> string set" where
  "conc A B = {u @ v | u v. u \<in> A \<and> v \<in> B}"

inductive_set star :: "string set \<Rightarrow> string set" for A :: "string set" where
  star_nil: "[] \<in> star A"
| star_step: "u \<in> A \<Longrightarrow> v \<in> star A \<Longrightarrow> u @ v \<in> star A"

fun lang :: "regex \<Rightarrow> string set" where
  "lang NoMatch = {}"
| "lang EmptyMatch = {[]}"
| "lang (CharClass rs) = {[c] | c. inClass rs c}"
| "lang (Literal s) = {s}"
| "lang (Concat r1 r2) = conc (lang r1) (lang r2)"
| "lang (Alternate r1 r2) = lang r1 \<union> lang r2"
| "lang (Star r) = star (lang r)"
| "lang (Plus r) = conc (lang r) (star (lang r))"

section \<open>Validation before Create\<close>

text \<open>
  The framework validates the configuration before it plans or applies: a configuration
  with a validation error never reaches Create, and no remote call is made for it.
\<close>

definition ValidatedCreate ::
  "framework \<Rightarrow> 'r S3ExpressClient \<Rightarrow> directoryBucketResourceModel \<Rightarrow>
   diagnostic list \<times> directoryBucketResourceModel \<Rightarrow> 'r \<Rightarrow> 'r result outcome" where
  "ValidatedCreate fw conn config plan r =
     (if HasError (ValidateConfig config)
      then Returns \<lparr>Diagnostics = ValidateConfig config, State = None, Remote = r, Calls = []\<rparr>
      else Create fw conn plan r)"

section \<open>What a surfaced error carries\<close>

text \<open>
  An error diagnostic carries an operation and an identity when its summary names the
  operation and has the identity in parentheses; it reports a Go error when the error's
  text is its detail or stands in its summary.
\<close>

definition carries :: "diagnostic \<Rightarrow> string \<Rightarrow> string \<Rightarrow> bool" where
  "carries d operation identity =
     (sublist operation (Summary d) \<and> sublist (''('' @ identity @ '')'') (Summary d))"

definition reports :: "diagnostic \<Rightarrow> goerror \<Rightarrow> bool" where
  "reports d e = (Detail d = Error e \<or> sublist (Error e) (Summary d))"

text \<open>
  The diagnostics the framework hands to the directory bucket resource while it decodes
  the request and stores the new state; the resource passes them on as they are.
\<close>

definition fromFramework ::
  "framework \<Rightarrow> diagnostic list \<times> directoryBucketResourceModel \<Rightarrow> diagnostic \<Rightarrow> bool" where
  "fromFramework fw req d =
     (d \<in> set (fst req) \<or> d \<in> set (snd (ToPtr fw (Location (snd req)))) \<or>
      (\<exists>m. d \<in> set (StateSet fw m)))"

definition errorsCarry ::
  "(diagnostic \<Rightarrow> bool) \<Rightarrow> diagnostic list \<Rightarrow> string list \<Rightarrow> string \<Rightarrow> bool" where
  "errorsCarry passed diags operations identity =
     (\<forall>d \<in> set diags. IsError d \<longrightarrow>
        passed d \<or> (\<exists>operation \<in> set operations. carries d operation identity))"

definition noneSwallowed ::
  "('c \<times> goerror option) list \<Rightarrow> diagnostic list \<Rightarrow> ('c \<Rightarrow> goerror \<Rightarrow> bool) \<Rightarrow> bool" where
  "noneSwallowed calls diags excepted =
     (\<forall>c e. (c, Some e) \<in> set calls \<longrightarrow>
        excepted c e \<or> (\<exists>d \<in> set diags. IsError d \<and> reports d e))"

text \<open>
  The remote errors an operation may keep to itself: not-found on a read of an object that
  is not new, not-found on a delete, and not-empty on a delete with \<open>force_destroy\<close>.
\<close>

definition exceptedBucket :: "bool \<Rightarrow> call \<Rightarrow> goerror \<Rightarrow> bool" where
  "exceptedBucket force c e =
     (case c of
        CallFindBucket _ \<Rightarrow> NotFound (Some e)
      | CallDeleteBucket _ \<Rightarrow>
          ErrCodeEquals (Some e) errCodeNoSuchBucket \<or>
          (force \<and> ErrCodeEquals (Some e) errCodeBucketNotEmpty)
      | _ \<Rightarrow> False)"

definition exceptedAppFlow :: "bool \<Rightarrow> 'c appflowcall \<Rightarrow> goerror \<Rightarrow> bool" where
  "exceptedAppFlow isNew c e =
     (case c of
        CallDescribeConnectorProfiles _ \<Rightarrow> \<not> isNew \<and> NotFound (Some e)
      | CallDeleteConnectorProfile _ \<Rightarrow> IsA_ResourceNotFoundException (Some e)
      | _ \<Rightarrow> False)"

section \<open>The diff engine and the guard on Update\<close>

text \<open>
  The resources above declare which attributes force replacement; the engine that
  compares configuration and state against those declarations, and the guard that keeps
  Update from a change set that needs replacement, are not among the sources. They are
  modelled here from the specification, rule by rule.
\<close>

text \<open>Modelled from the spec: the typed values of attributes (section 3, semantic types).\<close>

datatype tvalue =
    VString string
  | VBool bool
  | VInt int
  | VList "tvalue list"
  | VMap "(string \<times> tvalue) list"

datatype semtype = TString | TBool | TInt | TList | TMap | TNestedObject

text \<open>
  Modelled from the spec: a configuration or a ResourceState, a mapping from attribute
  name to value with its nested blocks (section 3). A name that is not mapped is absent
  (\<open>Null\<close>); a value can be unknown.
\<close>

datatype obj = Obj "(string \<times> tvalue tfval) list" "(string \<times> obj list) list"

fun attrValue :: "obj \<Rightarrow> string \<Rightarrow> tvalue tfval" where
  "attrValue (Obj avs bvs) n = (case map_of avs n of None \<Rightarrow> Null | Some v \<Rightarrow> v)"

fun blockElems :: "obj \<Rightarrow> string \<Rightarrow> obj list" where
  "blockElems (Obj avs bvs) n = (case map_of bvs n of None \<Rightarrow> [] | Some os \<Rightarrow> os)"

definition emptyObj :: obj where
  "emptyObj = Obj [] []"

text \<open>Modelled from the spec: the four marks of a ChangeSet (section 3).\<close>

datatype change = Unchanged | SetToValue "tvalue tfval" | ComputedPending | RequiresReplacement

text \<open>
  Modelled from the spec: AttributeSchema (section 3), with the plan-modifier rule of
  section 4.1 as an optional function of the desired configuration.
\<close>

record AttributeSchema =
  attrName :: string
  semanticType :: semtype
  required :: bool
  optional :: bool
  computed :: bool
  sensitive :: bool
  defaultValue :: "tvalue option"
  validation :: "tvalue \<Rightarrow> bool"
  replacementOnChange :: bool
  planModifier :: "(obj \<Rightarrow> change) option"

text \<open>
  Modelled from the spec: ResourceSchema (section 3), the attributes and the nested block
  schemas, each block with its name and its "at most" cardinality.
\<close>

datatype ResourceSchema =
  ResourceSchema "AttributeSchema list" "(string \<times> nat option \<times> ResourceSchema) list"

text \<open>Modelled from the spec: ChangeSet (section 3), one mark per attribute, block by block.\<close>

datatype ChangeSet = ChangeSet "(string \<times> change) list" "(string \<times> ChangeSet list) list"

datatype ValidationError = MissingRequired string | InvalidValue string | TooManyItems string

fun isKnown :: "'a tfval \<Rightarrow> bool" where
  "isKnown (Known v) = True"
| "isKnown _ = False"

definition computedOnly :: "AttributeSchema \<Rightarrow> bool" where
  "computedOnly a = (computed a \<and> \<not> required a \<and> \<not> optional a)"

text \<open>
  Modelled from the spec: the algorithm of section 4.1 for one attribute. The desired
  value is compared with the value of the prior state, and a value that equals the prior
  one is unchanged, as section 8 asks of the diff of identical input. The rules of
  section 4.1 then classify a difference, in the order the spec lists them: replacement
  needs both values known and different; a computed-only attribute with no desired value
  is computed-pending; an optional and computed attribute with no desired value keeps a
  prior value unless a plan modifier overrides it. Any other unknown desired value is
  computed-pending and any other value is set.
\<close>

definition diffAttr :: "AttributeSchema \<Rightarrow> obj \<Rightarrow> obj \<Rightarrow> change" where
  "diffAttr a desired prior =
     (let d = attrValue desired (attrName a); p = attrValue prior (attrName a)
      in if d = p then Unchanged
         else if replacementOnChange a \<and> isKnown d \<and> isKnown p \<and> d \<noteq> p then RequiresReplacement
         else if computedOnly a \<and> d = Null then ComputedPending
         else if optional a \<and> computed a \<and> d = Null \<and> isKnown p
           then (case planModifier a of None \<Rightarrow> Unchanged | Some f \<Rightarrow> f desired)
         else if d = Unknown then ComputedPending
         else SetToValue d)"

text \<open>
  Modelled from the spec: nested blocks are diffed recursively (section 4.1), element by
  element in order; an element with no counterpart is diffed against the empty object.
\<close>

fun diffList :: "(obj \<Rightarrow> obj \<Rightarrow> 'c) \<Rightarrow> obj list \<Rightarrow> obj list \<Rightarrow> 'c list" where
  "diffList f [] [] = []"
| "diffList f (d # ds) [] = f d emptyObj # diffList f ds []"
| "diffList f [] (p # ps) = f emptyObj p # diffList f [] ps"
| "diffList f (d # ds) (p # ps) = f d p # diffList f ds ps"

fun diffObj :: "ResourceSchema \<Rightarrow> obj \<Rightarrow> obj \<Rightarrow> ChangeSet" where
  "diffObj (ResourceSchema as bs) =
     (\<lambda>desired prior.
        ChangeSet
          (map (\<lambda>a. (attrName a, diffAttr a desired prior)) as)
          (map (\<lambda>(bn, mx, sub).
                  (bn, diffList (diffObj sub) (blockElems desired bn) (blockElems prior bn))) bs))"

text \<open>
  Modelled from the spec: the schema constraints whose violation is a ValidationError
  (sections 3 and 4.1): a required attribute is present, a known value satisfies the
  validation predicate, and a block's cardinality is checked before its elements are.
\<close>

definition validateAttr :: "AttributeSchema \<Rightarrow> tvalue tfval \<Rightarrow> ValidationError list" where
  "validateAttr a d =
     (case d of
        Null \<Rightarrow> if required a then [MissingRequired (attrName a)] else []
      | Unknown \<Rightarrow> []
      | Known v \<Rightarrow> if validation a v then [] else [InvalidValue (attrName a)])"

fun validateObj :: "ResourceSchema \<Rightarrow> obj \<Rightarrow> ValidationError list" where
  "validateObj (ResourceSchema as bs) =
     (\<lambda>desired.
        concat (map (\<lambda>a. validateAttr a (attrValue desired (attrName a))) as) @
        concat (map (\<lambda>(bn, mx, sub).
                  (case mx of
                     Some n \<Rightarrow>
                       if length (blockElems desired bn) > n then [TooManyItems bn]
                       else concat (map (validateObj sub) (blockElems desired bn))
                   | None \<Rightarrow> concat (map (validateObj sub) (blockElems desired bn)))) bs))"

text \<open>
  Modelled from the spec: \<open>computeChangeSet(desired, priorState, schema)\<close>, which fails
  with a ValidationError when desired violates the schema's constraints (section 4.1).
\<close>

definition computeChangeSet :: "obj \<Rightarrow> obj \<Rightarrow> ResourceSchema \<Rightarrow> ValidationError + ChangeSet" where
  "computeChangeSet desired priorState schema =
     (case validateObj schema desired of
        [] \<Rightarrow> Inr (diffObj schema desired priorState)
      | e # _ \<Rightarrow> Inl e)"

text \<open>
  Modelled from the spec: a replacement mark on any attribute, at any depth, marks the
  whole resource (section 4.1).
\<close>

fun requiresReplacement :: "ChangeSet \<Rightarrow> bool" where
  "requiresReplacement (ChangeSet acs bcs) =
     (list_ex (\<lambda>(n, c). c = RequiresReplacement) acs \<or>
      list_ex (\<lambda>(n, css). list_ex requiresReplacement css) bcs)"


text \<open>
  Modelled from the spec: some replacement-on-change attribute, at any depth, has known
  desired and prior values that differ (the condition of the first rule of section 4.1).
\<close>

fun replacementMismatch :: "ResourceSchema \<Rightarrow> obj \<Rightarrow> obj \<Rightarrow> bool" where
  "replacementMismatch (ResourceSchema as bs) =
     (\<lambda>desired prior.
        list_ex (\<lambda>a. replacementOnChange a \<and> isKnown (attrValue desired (attrName a)) \<and>
                      isKnown (attrValue prior (attrName a)) \<and>
                      attrValue desired (attrName a) \<noteq> attrValue prior (attrName a)) as \<or>
        list_ex (\<lambda>(bn, mx, sub).
                   list_ex (\<lambda>(d, p). replacementMismatch sub d p)
                     (zip (blockElems desired bn) (blockElems prior bn))) bs)"

text \<open>
  Modelled from the spec: the transition Present --Update(ChangeSet)--> Present | Error of
  section 4.2. A change set that marks requires-replacement is rejected before the remote
  update is called.
\<close>

datatype UpdateError = RejectedRequiresReplacement | RemoteError string

definition Update ::
  "ChangeSet \<Rightarrow> (ChangeSet \<Rightarrow> obj \<Rightarrow> string + obj) \<Rightarrow> obj \<Rightarrow> UpdateError + obj" where
  "Update cs remoteUpdate state =
     (if requiresReplacement cs then Inl RejectedRequiresReplacement
      else (case remoteUpdate cs state of Inl e \<Rightarrow> Inl (RemoteError e) | Inr s \<Rightarrow> Inr s))"

section \<open>Concrete inputs\<close>

text \<open>
  The inputs at which the theorems below are instantiated. The remote side is a scripted
  client: its state counts the calls made so far, and the \<open>n\<close>-th call answers with
  the \<open>n\<close>-th entry of the script (no error once the script is used up).
\<close>

definition framework0 :: framework where
  "framework0 =
     \<lparr>ToPtr = (\<lambda>v. case v of
                   Known [x] \<Rightarrow> (Some x, [])
                 | Known (x # y # zs) \<Rightarrow>
                     (None, [NewErrorDiagnostic ''Invalid list'' ''too many elements: want 1''])
                 | _ \<Rightarrow> (None, [])),
      RegionalARN = (\<lambda>service resource.
                   ''arn:aws:'' @ service @ '':us-west-2:123456789012:'' @ resource),
      StateSet = (\<lambda>_. [])\<rparr>"

definition location0 :: locationInfoModel where
  "location0 = \<lparr>Name = Known ''usw2-az2'', Type = Unknown\<rparr>"

definition plan0 :: directoryBucketResourceModel where
  "plan0 =
     \<lparr>WithRegionModel = Known ''us-west-2'', ARN = Unknown, Bucket = Known ''b--usw2-az2--x-s3'',
      DataRedundancy = Unknown, ForceDestroy = Known False, Location = Known [location0],
      ID = Unknown, BucketType = Known ''Directory''\<rparr>"

definition request0 :: StringRequest where
  "request0 = \<lparr>PlanValue = Unknown, Plan = ([], plan0)\<rparr>"

definition response0 :: StringResponse where
  "response0 = \<lparr>RespPlanValue = Unknown, RespDiagnostics = []\<rparr>"

definition state0 :: "bool \<Rightarrow> directoryBucketResourceModel" where
  "state0 force =
     \<lparr>WithRegionModel = Known ''us-west-2'',
      ARN = Known ''arn:aws:s3express:us-west-2:123456789012:bucket/b--usw2-az2--x-s3'',
      Bucket = Known ''b--usw2-az2--x-s3'', DataRedundancy = Known ''SingleAvailabilityZone'',
      ForceDestroy = Known force,
      Location = Known [\<lparr>Name = Known ''usw2-az2'', Type = Known ''AvailabilityZone''\<rparr>],
      ID = Known ''b--usw2-az2--x-s3'', BucketType = Known ''Directory''\<rparr>"

definition answer :: "goerror option list \<Rightarrow> nat \<Rightarrow> goerror option" where
  "answer script n = (if n < length script then script ! n else None)"

definition output0 :: HeadBucketOutput where
  "output0 = \<lparr>BucketLocationName = Some ''usw2-az2'', BucketLocationType = ''AvailabilityZone''\<rparr>"

definition scriptedClient :: "goerror option list \<Rightarrow> nat S3ExpressClient" where
  "scriptedClient script =
     \<lparr>CreateBucket = (\<lambda>input n. (answer script n, Suc n)),
      DeleteBucket = (\<lambda>bucket n. (answer script n, Suc n)),
      findBucket = (\<lambda>bucket n.
         ((case answer script n of Some e \<Rightarrow> Inl e | None \<Rightarrow> Inr output0), Suc n)),
      emptyDirectoryBucket = (\<lambda>bucket n. (answer script n, Suc n))\<rparr>"

definition notEmptyError :: goerror where
  "notEmptyError =
     \<lparr>Kind = APIError ''BucketNotEmpty'', Message = ''The bucket you tried to delete is not empty''\<rparr>"


definition accessDeniedError :: goerror where
  "accessDeniedError = \<lparr>Kind = APIError ''AccessDenied'', Message = ''Access Denied''\<rparr>"

definition notFoundError :: goerror where
  "notFoundError = \<lparr>Kind = RetryNotFound, Message = ''could not find resource''\<rparr>"


definition conversionError :: diagnostic where
  "conversionError = NewErrorDiagnostic ''Value Conversion Error'' ''unhandled unknown value''"

definition emptyProperties :: ConnectorProfileProperties where
  "emptyProperties =
     \<lparr>Amplitude = None, CustomConnector = None, Datadog = None, Dynatrace = None,
      GoogleAnalytics = None, Honeycode = None, InforNexus = None, Marketo = None,
      Redshift = None, SAPOData = None, Salesforce = None, ServiceNow = None,
      Singular = None, Slack = None, Snowflake = None, Trendmicro = None, Veeva = None,
      Zendesk = None\<rparr>"

definition slackProperties :: ConnectorProfileProperties where
  "slackProperties = emptyProperties\<lparr>Slack := Some \<lparr>InstanceUrl = Some ''https://example.slack.com''\<rparr>\<rparr>"

definition profile0 :: ConnectorProfile where
  "profile0 =
     \<lparr>ConnectorProfileArn = Some ''arn:aws:appflow:us-west-2:123456789012:connectorprofile/example'',
      ConnectorProfile.ConnectionMode = ''Public'',
      ConnectorProfile.ConnectorLabel = None,
      ConnectorProfile.ConnectorProfileName = Some ''example'',
      ConnectorProfileProperties = Some slackProperties,
      ConnectorProfile.ConnectorType = ''Slack'',
      CredentialsArn = Some ''arn:aws:secretsmanager:us-west-2:123456789012:secret:appflow!example''\<rparr>"

definition credentials0 :: "any list" where
  "credentials0 =
     [AMap [(''slack'', AList [AMap [(''client_id'', AString ''id''),
                                      (''client_secret'', AString ''secret'')]])]]"

definition d0 :: ResourceData where
  "d0 =
     \<lparr>Id = ''example'', IsNewResource = False, attr_arn = [], attr_connection_mode = ''Public'',
      attr_connector_label = [],
      attr_connector_profile_config =
        [AMap [(''connector_profile_credentials'', AList credentials0),
               (''connector_profile_properties'',
                AList [AMap [(''slack'', AList [AMap [(''instance_url'', AString ''https://old.slack.com'')]])]])]],
      attr_connector_type = ''Slack'', attr_credentials_arn = [], attr_kms_arn = [],
      attr_name = ''example''\<rparr>"

definition scriptedAppFlow ::
  "goerror option list \<Rightarrow> ConnectorProfile list \<Rightarrow> ((string \<times> any) list, nat) AppFlowClient" where
  "scriptedAppFlow script profiles =
     \<lparr>CreateConnectorProfile = (\<lambda>input n. (answer script n, Suc n)),
      UpdateConnectorProfile = (\<lambda>input n. (answer script n, Suc n)),
      DeleteConnectorProfile = (\<lambda>name n. (answer script n, Suc n)),
      DescribeConnectorProfiles = (\<lambda>names n.
         ((case answer script n of Some e \<Rightarrow> (None, Some e) | None \<Rightarrow> (Some profiles, None)),
          Suc n))\<rparr>"

text \<open>
  The directory bucket's schema in the terms of the diff engine: which attributes are
  required, optional, computed and replacement-on-change, the pattern on \<open>bucket\<close>, the
  defaults, and the \<open>location\<close> block of at most one element.
\<close>

definition stringAttribute :: "string \<Rightarrow> AttributeSchema" where
  "stringAttribute n =
     \<lparr>attrName = n, semanticType = TString, required = False, optional = False,
      computed = False, sensitive = False, defaultValue = None, validation = (\<lambda>_. True),
      replacementOnChange = False, planModifier = None\<rparr>"

definition directoryBucketSchema :: ResourceSchema where
  "directoryBucketSchema =
     ResourceSchema
       [(stringAttribute ''arn'')\<lparr>computed := True\<rparr>,
        (stringAttribute ''bucket'')\<lparr>required := True, replacementOnChange := True,
           validation := (\<lambda>v. case v of VString s \<Rightarrow> MatchString directoryBucketNameRegex s
                                | _ \<Rightarrow> False)\<rparr>,
        (stringAttribute ''data_redundancy'')\<lparr>optional := True, computed := True,
           replacementOnChange := True\<rparr>,
        (stringAttribute ''force_destroy'')\<lparr>semanticType := TBool, optional := True,
           computed := True, defaultValue := Some (VBool False)\<rparr>,
        (stringAttribute ''id'')\<lparr>computed := True\<rparr>,
        (stringAttribute ''type'')\<lparr>optional := True, computed := True,
           defaultValue := Some (VString ''Directory''), replacementOnChange := True\<rparr>]
       [(''location'', Some 1,
         ResourceSchema
           [(stringAttribute ''name'')\<lparr>required := True, replacementOnChange := True\<rparr>,
            (stringAttribute ''type'')\<lparr>optional := True, computed := True,
               defaultValue := Some (VString ''AvailabilityZone''),
               replacementOnChange := True\<rparr>]
           [])]"

definition prior0 :: obj where
  "prior0 =
     Obj [(''arn'', Known (VString ''arn:aws:s3express:us-west-2:123456789012:bucket/old--usw2-az2--x-s3'')),
          (''bucket'', Known (VString ''old--usw2-az2--x-s3'')),
          (''data_redundancy'', Known (VString ''SingleAvailabilityZone'')),
          (''force_destroy'', Known (VBool False)),
          (''id'', Known (VString ''old--usw2-az2--x-s3'')),
          (''type'', Known (VString ''Directory''))]
         [(''location'', [Obj [(''name'', Known (VString ''usw2-az2'')),
                               (''type'', Known (VString ''AvailabilityZone''))] []])]"

definition desired0 :: obj where
  "desired0 =
     Obj [(''bucket'', Known (VString ''new--usw2-az2--x-s3'')),
          (''force_destroy'', Known (VBool True))]
         [(''location'', [Obj [(''name'', Known (VString ''usw2-az2''))] []])]"


section \<open>Diagnostics\<close>

lemma HasError_append: "HasError (xs @ ys) \<longleftrightarrow> HasError xs \<or> HasError ys"
  by (simp add: HasError_def list_ex_append)

lemma HasError_Nil: "\<not> HasError []"
  by (simp add: HasError_def)

lemma HasError_error: "HasError [NewErrorDiagnostic s d]"
  by (simp add: HasError_def IsError_def NewErrorDiagnostic_def)

lemma HasError_warning: "\<not> HasError [NewWarningDiagnostic s d]"
  by (simp add: HasError_def IsError_def NewWarningDiagnostic_def)

lemma set_Append: "set (Append a b) = set a \<union> set b"
  by (induction b arbitrary: a) auto

lemma HasError_iff: "HasError ds \<longleftrightarrow> (\<exists>d \<in> set ds. IsError d)"
  by (simp add: HasError_def list_ex_iff)

lemma HasError_Append: "HasError (Append a b) \<longleftrightarrow> HasError a \<or> HasError b"
  by (auto simp: HasError_iff set_Append)

lemma HasError_Append_Nil: "HasError (Append [] b) \<longleftrightarrow> HasError b"
  by (simp add: HasError_Append HasError_Nil)

lemma set_AddError: "set (AddError ds s d) = insert (NewErrorDiagnostic s d) (set ds)"
  unfolding AddError_def set_Append by simp

lemma HasError_AddError: "HasError (AddError ds s d)"
  unfolding AddError_def HasError_Append by (simp add: HasError_error)

lemma Append_single: "Append [] [d] = [d]"
  by simp

lemma Append_Nil_left: "distinct ds \<Longrightarrow> Append [] ds = ds"
proof -
  have "distinct (a @ ds) \<Longrightarrow> Append a ds = a @ ds" for a
    by (induction ds arbitrary: a) auto
  from this [of "[]"] show "distinct ds \<Longrightarrow> Append [] ds = ds" by simp
qed

declare Append.simps [simp del]

section \<open>The plan modifier of \<open>data_redundancy\<close>\<close>

lemma default_cases:
  "StringValueToFramework (defaultDirectoryBucketDataRedundancy (ValueEnum t)) =
   Known (if t = Known ''LocalZone'' then ''SingleLocalZone'' else ''SingleAvailabilityZone'')"
  by (cases t)
     (simp_all add: ValueEnum_def StringValueToFramework_def defaultDirectoryBucketDataRedundancy_def
        LocationTypeLocalZone_def DataRedundancySingleAvailabilityZone_def
        DataRedundancySingleLocalZone_def)

text \<open>
  C1, as the code has it. When the planned value of \<open>data_redundancy\<close> is unknown and
  the plan decodes with one \<open>location\<close> element, the plan modifier sets a concrete value,
  never an unknown one: \<open>SingleLocalZone\<close> when the location type is known to be
  \<open>LocalZone\<close>, and \<open>SingleAvailabilityZone\<close> in every other case, the one where the
  location type is still unknown included (its enum value reads as the empty string and
  falls to the default branch). A planned value that is already known is left as it is.
\<close>

theorem PlanModifyString_concrete_default:
  assumes "ToPtr fw (Location (snd (Plan request))) = (Some li, ds)"
    and "\<not> HasError (Append (Append (RespDiagnostics response) (fst (Plan request))) ds)"
  shows "PlanModifyString fw request response =
     Returns
       (if IsUnknown (PlanValue request)
        then \<lparr>RespPlanValue =
                 Known (if Type li = Known ''LocalZone'' then ''SingleLocalZone''
                        else ''SingleAvailabilityZone''),
               RespDiagnostics = Append (Append (RespDiagnostics response) (fst (Plan request))) ds\<rparr>
        else response)"
proof (cases "IsUnknown (PlanValue request)")
  case False
  then show ?thesis by (simp add: PlanModifyString_def)
next
  case True
  from assms(2) have ok1: "\<not> HasError (Append (RespDiagnostics response) (fst (Plan request)))"
    by (simp add: HasError_Append)
  show ?thesis
    using True ok1 assms(2) assms(1)
    by (simp add: PlanModifyString_def Let_def default_cases)
qed

theorem PlanModifyString_concrete_default_witness:
  "PlanModifyString framework0 request0 response0 =
     Returns \<lparr>RespPlanValue = Known ''SingleAvailabilityZone'', RespDiagnostics = []\<rparr>"
proof -
  have p: "ToPtr framework0 (Location (snd (Plan request0))) = (Some location0, [])"
    by (simp add: framework0_def request0_def plan0_def)
  have e: "\<not> HasError (Append (Append (RespDiagnostics response0) (fst (Plan request0))) [])"
    by (simp add: response0_def request0_def HasError_Nil Append.simps)
  show ?thesis
    using PlanModifyString_concrete_default [OF p e]
    by (simp add: request0_def response0_def location0_def Append.simps)
qed

text \<open>
  C1 as stated fails: with no planned value and a location type that is unknown at plan
  time, the planned \<open>data_redundancy\<close> is not unknown but the concrete
  \<open>SingleAvailabilityZone\<close>.
\<close>

theorem PlanModifyString_unknown_sibling_counterexample:
  "IsUnknown (PlanValue request0) \<and>
   Location (snd (Plan request0)) = Known [location0] \<and>
   IsUnknown (Type location0) \<and>
   PlanModifyString framework0 request0 response0 =
     Returns \<lparr>RespPlanValue = Known ''SingleAvailabilityZone'', RespDiagnostics = []\<rparr> \<and>
   \<not> IsUnknown (Known ''SingleAvailabilityZone'' :: string tfval)"
  by (simp add: PlanModifyString_def framework0_def request0_def response0_def plan0_def
      location0_def HasError_Nil default_cases Append.simps)

section \<open>Delete, Read and Create of the directory bucket\<close>

lemma codes_differ: "errCodeBucketNotEmpty \<noteq> errCodeNoSuchBucket"
  by (simp add: errCodeBucketNotEmpty_def errCodeNoSuchBucket_def)

lemma ErrCodeEquals_unique:
  "ErrCodeEquals err c \<Longrightarrow> ErrCodeEquals err c' \<Longrightarrow> c = c'"
  by (cases err) auto

lemma DeleteFinish_calls [simp]: "Calls (DeleteFinish data diags err r cs) = cs"
  by (simp add: DeleteFinish_def split: option.splits)

lemma DeleteFinish_state [simp]: "State (DeleteFinish data diags err r cs) = Some data"
  by (simp add: DeleteFinish_def split: option.splits)

lemma DeleteFinish_diagnostics:
  "Diagnostics (DeleteFinish data diags err r cs) =
     (if ErrCodeEquals err errCodeNoSuchBucket then diags
      else case err of
             None \<Rightarrow> diags
           | Some e \<Rightarrow> AddError diags
                (''deleting S3 Directory Bucket ('' @ ValueString (ID data) @ '')'') (Error e))"
  by (simp add: DeleteFinish_def split: option.splits)

lemma Delete_undecoded:
  "HasError (fst state) \<Longrightarrow>
   Delete conn state r =
     \<lparr>Diagnostics = Append [] (fst state), State = Some (snd state), Remote = r, Calls = []\<rparr>"
  by (simp add: Delete_def Let_def HasError_Append_Nil)

lemma Delete_plain:
  assumes "\<not> HasError (fst state)"
    and "DeleteBucket conn (StringFromFramework (ID (snd state))) r = (err, r1)"
    and "\<not> (ErrCodeEquals err errCodeBucketNotEmpty \<and> ValueBool (ForceDestroy (snd state)))"
  shows "Delete conn state r =
     DeleteFinish (snd state) (Append [] (fst state)) err r1
       [(CallDeleteBucket (StringFromFramework (ID (snd state))), err)]"
  using assms by (auto simp: Delete_def Let_def HasError_Append_Nil)

lemma Delete_drain_fails:
  assumes "\<not> HasError (fst state)"
    and "DeleteBucket conn (StringFromFramework (ID (snd state))) r = (err, r1)"
    and "ErrCodeEquals err errCodeBucketNotEmpty" and "ValueBool (ForceDestroy (snd state))"
    and "emptyDirectoryBucket conn (ValueString (ID (snd state))) r1 = (Some e2, r2)"
  shows "Delete conn state r =
     \<lparr>Diagnostics = AddError (Append [] (fst state))
        (''emptying S3 Directory Bucket ('' @ ValueString (ID (snd state)) @ '')'') (Error e2),
      State = Some (snd state), Remote = r2,
      Calls = [(CallDeleteBucket (StringFromFramework (ID (snd state))), err),
               (CallEmptyDirectoryBucket (ValueString (ID (snd state))), Some e2)]\<rparr>"
  using assms by (simp add: Delete_def Let_def HasError_Append_Nil)

lemma Delete_retry:
  assumes "\<not> HasError (fst state)"
    and "DeleteBucket conn (StringFromFramework (ID (snd state))) r = (err, r1)"
    and "ErrCodeEquals err errCodeBucketNotEmpty" and "ValueBool (ForceDestroy (snd state))"
    and "emptyDirectoryBucket conn (ValueString (ID (snd state))) r1 = (None, r2)"
    and "DeleteBucket conn (StringFromFramework (ID (snd state))) r2 = (err3, r3)"
  shows "Delete conn state r =
     DeleteFinish (snd state) (Append [] (fst state)) err3 r3
       [(CallDeleteBucket (StringFromFramework (ID (snd state))), err),
        (CallEmptyDirectoryBucket (ValueString (ID (snd state))), None),
        (CallDeleteBucket (StringFromFramework (ID (snd state))), err3)]"
  using assms by (simp add: Delete_def Let_def HasError_Append_Nil)

lemma DeleteFinish_no_error:
  "\<not> HasError diags \<Longrightarrow> err = None \<or> ErrCodeEquals err errCodeNoSuchBucket \<Longrightarrow>
   \<not> HasError (Diagnostics (DeleteFinish data diags err r cs))"
  by (auto simp: DeleteFinish_diagnostics)

lemma DeleteFinish_error:
  "err = Some e \<Longrightarrow> \<not> ErrCodeEquals err errCodeNoSuchBucket \<Longrightarrow>
   Diagnostics (DeleteFinish data diags err r cs) =
     AddError diags (''deleting S3 Directory Bucket ('' @ ValueString (ID data) @ '')'') (Error e)"
  by (simp add: DeleteFinish_diagnostics)


text \<open>
  C3. A Read whose remote lookup reports not-found removes the object from state and
  reports no error: for the directory bucket whenever the logged lookup returned a
  not-found error (the diagnostic it adds is a warning), and for the connector profile
  whenever the object is not a new resource, that is, it was Present before the Read.
\<close>

theorem Read_not_found_is_removal:
  "((c, Some e) \<in> set (Calls (Read fw conn state r)) \<and> NotFound (Some e) \<longrightarrow>
      State (Read fw conn state r) = None \<and> \<not> HasError (Diagnostics (Read fw conn state r))) \<and>
   (\<not> IsNewResource d \<and> NotFound (snd (fst (findConnectorProfileByName aconn (Id d) ar))) \<longrightarrow>
      (\<exists>res. resourceConnectorProfileRead aconn d ar = Returns res \<and> Diags res = [] \<and>
         Id (Data res) = [] \<and> \<not> HasError (Diags res)))"
proof (intro conjI impI)
  assume a: "(c, Some e) \<in> set (Calls (Read fw conn state r)) \<and> NotFound (Some e)"
  show "State (Read fw conn state r) = None"
    using a by (auto simp: Read_def Let_def SetState_def split: if_splits sum.splits)
  show "\<not> HasError (Diagnostics (Read fw conn state r))"
    using a by (auto simp: Read_def Let_def SetState_def HasError_Append HasError_warning
        NewResourceNotFoundWarningDiagnostic_def split: if_splits sum.splits)
next
  assume "\<not> IsNewResource d \<and> NotFound (snd (fst (findConnectorProfileByName aconn (Id d) ar)))"
  then show "\<exists>res. resourceConnectorProfileRead aconn d ar = Returns res \<and> Diags res = [] \<and>
         Id (Data res) = [] \<and> \<not> HasError (Diags res)"
    by (simp add: resourceConnectorProfileRead_def Let_def HasError_Nil)
qed


theorem Read_not_found_is_removal_witness:
  "State (Read framework0 (scriptedClient [Some notFoundError]) ([], state0 False) 0) = None \<and>
   \<not> HasError (Diagnostics (Read framework0 (scriptedClient [Some notFoundError]) ([], state0 False) 0)) \<and>
   (\<exists>res. resourceConnectorProfileRead (scriptedAppFlow [] []) d0 0 = Returns res \<and> Diags res = [] \<and>
      Id (Data res) = [] \<and> \<not> HasError (Diags res))"
proof -
  have h1: "(CallFindBucket ''b--usw2-az2--x-s3'', Some notFoundError)
        \<in> set (Calls (Read framework0 (scriptedClient [Some notFoundError]) ([], state0 False) 0)) \<and>
      NotFound (Some notFoundError)"
    by (simp add: Read_def Let_def scriptedClient_def answer_def state0_def notFoundError_def
        HasError_Nil Append.simps)
  have h2: "\<not> IsNewResource d0 \<and>
      NotFound (snd (fst (findConnectorProfileByName (scriptedAppFlow [] []) (Id d0) 0)))"
    by (simp add: findConnectorProfileByName_def Let_def scriptedAppFlow_def answer_def d0_def
        NewEmptyResultError_def)
  from h1 h2 show ?thesis
    using Read_not_found_is_removal
      [of "CallFindBucket ''b--usw2-az2--x-s3''" notFoundError framework0
          "scriptedClient [Some notFoundError]" "([], state0 False)" 0 d0
          "scriptedAppFlow [] []" 0]
    by blast
qed



text \<open>
  C10. After a Create or a Read of the directory bucket that reports no error and leaves
  a state, \<open>id\<close> and \<open>bucket\<close> of that state are the same value: Create copies
  \<open>bucket\<close> into \<open>id\<close>, Read copies \<open>id\<close> into \<open>bucket\<close>.
\<close>

theorem id_equals_bucket:
  "(Create fw conn plan r = Returns res \<and> \<not> HasError (Diagnostics res) \<longrightarrow>
      (\<exists>data. State res = Some data \<and> ID data = Bucket data \<and> ID data = Bucket (snd plan))) \<and>
   (\<not> HasError (Diagnostics (Read fw conn state r)) \<and> State (Read fw conn state r) = Some data' \<longrightarrow>
      ID data' = Bucket data' \<and> Bucket data' = ID (snd state))"
proof (intro conjI impI)
  assume "Create fw conn plan r = Returns res \<and> \<not> HasError (Diagnostics res)"
  then show "\<exists>data. State res = Some data \<and> ID data = Bucket data \<and> ID data = Bucket (snd plan)"
    by (auto simp: Create_def Let_def SetState_def HasError_Append HasError_AddError
        split: if_splits option.splits)
next
  assume a: "\<not> HasError (Diagnostics (Read fw conn state r)) \<and> State (Read fw conn state r) = Some data'"
  then show "ID data' = Bucket data'"
    by (auto simp: Read_def Let_def SetState_def HasError_Append HasError_AddError
        split: if_splits sum.splits)
  from a show "Bucket data' = ID (snd state)"
    by (auto simp: Read_def Let_def SetState_def HasError_Append HasError_AddError
        split: if_splits sum.splits)
qed


theorem id_equals_bucket_witness:
  "(\<exists>res data. Create framework0 (scriptedClient []) ([], plan0) 0 = Returns res \<and>
      State res = Some data \<and> ID data = Bucket data \<and> ID data = Known ''b--usw2-az2--x-s3'') \<and>
   (\<exists>data'. State (Read framework0 (scriptedClient []) ([], state0 False) 0) = Some data' \<and>
      ID data' = Bucket data' \<and> Bucket data' = Known ''b--usw2-az2--x-s3'')"
proof -
  obtain res where c: "Create framework0 (scriptedClient []) ([], plan0) 0 = Returns res"
    and ce: "\<not> HasError (Diagnostics res)"
    by (simp add: Create_def Let_def framework0_def plan0_def location0_def scriptedClient_def
        answer_def SetState_def HasError_Nil Append.simps)
  obtain data' where r: "State (Read framework0 (scriptedClient []) ([], state0 False) 0) = Some data'"
    and re: "\<not> HasError (Diagnostics (Read framework0 (scriptedClient []) ([], state0 False) 0))"
    by (simp add: Read_def Let_def framework0_def scriptedClient_def answer_def SetState_def
        HasError_Nil output0_def Append.simps)
  from c ce r re show ?thesis
    using id_equals_bucket
      [of framework0 "scriptedClient []" "([], plan0)" 0 res "([], state0 False)" data']
    by (simp add: plan0_def state0_def)
qed

text \<open>
  C2, as the code has it. The first delete call reports that the bucket is not empty.
  Without \<open>force_destroy\<close> that error is surfaced, nothing else is called and the
  object stays in state. With \<open>force_destroy\<close> the drain is called; if the drain fails,
  its error is surfaced, the delete is not retried and the object stays in state; if the
  drain succeeds, the delete is retried exactly once, and the object leaves the state when
  the retry succeeds or reports not-found, and stays with the retry's error otherwise.
\<close>

theorem Delete_not_empty:
  assumes "\<not> HasError (fst state)"
    and "DeleteBucket conn (StringFromFramework (ID (snd state))) r = (Some e, r1)"
    and "ErrCodeEquals (Some e) errCodeBucketNotEmpty"
    and "emptyDirectoryBucket conn (ValueString (ID (snd state))) r1 = (err2, r2)"
    and "DeleteBucket conn (StringFromFramework (ID (snd state))) r2 = (err3, r3)"
  shows
    "(let res = DeleteResource conn state r;
          first = (CallDeleteBucket (StringFromFramework (ID (snd state))), Some e);
          drain = (CallEmptyDirectoryBucket (ValueString (ID (snd state))), err2);
          retry = (CallDeleteBucket (StringFromFramework (ID (snd state))), err3);
          surfaced = (\<lambda>operation x. AddError (Append [] (fst state))
            (operation @ '' S3 Directory Bucket ('' @ ValueString (ID (snd state)) @ '')'') (Error x))
      in if \<not> ValueBool (ForceDestroy (snd state))
         then Calls res = [first] \<and> Diagnostics res = surfaced ''deleting'' e \<and>
              HasError (Diagnostics res) \<and> State res = Some (snd state)
         else
           (case err2 of
              Some e2 \<Rightarrow>
                Calls res = [first, drain] \<and> Diagnostics res = surfaced ''emptying'' e2 \<and>
                HasError (Diagnostics res) \<and> State res = Some (snd state)
            | None \<Rightarrow>
                Calls res = [first, drain, retry] \<and>
                (case err3 of
                   None \<Rightarrow> \<not> HasError (Diagnostics res) \<and> State res = None
                 | Some e3 \<Rightarrow>
                     if ErrCodeEquals (Some e3) errCodeNoSuchBucket
                     then \<not> HasError (Diagnostics res) \<and> State res = None
                     else Diagnostics res = surfaced ''deleting'' e3 \<and>
                          HasError (Diagnostics res) \<and> State res = Some (snd state))))"
proof (cases "ValueBool (ForceDestroy (snd state))")
  case False
  then have eq: "Delete conn state r =
      DeleteFinish (snd state) (Append [] (fst state)) (Some e) r1
        [(CallDeleteBucket (StringFromFramework (ID (snd state))), Some e)]"
    by (intro Delete_plain [OF assms(1) assms(2)]) simp
  from assms(3) have ne: "\<not> ErrCodeEquals (Some e) errCodeNoSuchBucket"
    using ErrCodeEquals_unique codes_differ by blast
  have d: "Diagnostics (Delete conn state r) = AddError (Append [] (fst state))
      (''deleting S3 Directory Bucket ('' @ ValueString (ID (snd state)) @ '')'') (Error e)"
    unfolding eq using ne by (simp add: DeleteFinish_error)
  then have h: "HasError (Diagnostics (Delete conn state r))"
    by (simp add: HasError_AddError)
  from False d h show ?thesis
    by (simp add: DeleteResource_def Let_def eq)
next
  case force: True
  from assms(1) have ok': "\<not> HasError (Append [] (fst state))"
    by (simp add: HasError_Append_Nil)
  show ?thesis
  proof (cases err2)
    case (Some e2)
    have eq: "Delete conn state r = \<lparr>Diagnostics = AddError (Append [] (fst state))
          (''emptying S3 Directory Bucket ('' @ ValueString (ID (snd state)) @ '')'') (Error e2),
        State = Some (snd state), Remote = r2,
        Calls = [(CallDeleteBucket (StringFromFramework (ID (snd state))), Some e),
               (CallEmptyDirectoryBucket (ValueString (ID (snd state))), Some e2)]\<rparr>"
      using assms(4) Some by (intro Delete_drain_fails [OF assms(1) assms(2) assms(3) force]) simp
    show ?thesis
      using force Some
      by (simp add: DeleteResource_def Let_def eq HasError_AddError)
  next
    case None
    have eq: "Delete conn state r =
        DeleteFinish (snd state) (Append [] (fst state)) err3 r3
         [(CallDeleteBucket (StringFromFramework (ID (snd state))), Some e),
          (CallEmptyDirectoryBucket (ValueString (ID (snd state))), None),
          (CallDeleteBucket (StringFromFramework (ID (snd state))), err3)]"
      using assms(4) None by (intro Delete_retry [OF assms(1) assms(2) assms(3) force _ assms(5)]) simp
    show ?thesis
    proof (cases err3)
      case n3: None
      have "\<not> HasError (Diagnostics (Delete conn state r))"
        unfolding eq using ok' n3 by (simp add: DeleteFinish_no_error)
      with force None n3 show ?thesis
        by (simp add: DeleteResource_def Let_def eq)
    next
      case (Some e3)
      show ?thesis
      proof (cases "ErrCodeEquals (Some e3) errCodeNoSuchBucket")
        case True
        have "\<not> HasError (Diagnostics (Delete conn state r))"
          unfolding eq using ok' Some True by (simp add: DeleteFinish_no_error)
        with force None Some True show ?thesis
          by (simp add: DeleteResource_def Let_def eq)
      next
        case False
        have d: "Diagnostics (Delete conn state r) = AddError (Append [] (fst state))
          (''deleting S3 Directory Bucket ('' @ ValueString (ID (snd state)) @ '')'') (Error e3)"
          unfolding eq using Some False by (simp add: DeleteFinish_error)
        then have h: "HasError (Diagnostics (Delete conn state r))"
          by (simp add: HasError_AddError)
        from force None Some False d h show ?thesis
          by (simp add: DeleteResource_def Let_def eq)
      qed
    qed
  qed
qed


theorem Delete_not_empty_witness:
  "Calls (DeleteResource (scriptedClient [Some notEmptyError]) ([], state0 True) 0) =
     [(CallDeleteBucket (Some ''b--usw2-az2--x-s3''), Some notEmptyError),
      (CallEmptyDirectoryBucket ''b--usw2-az2--x-s3'', None),
      (CallDeleteBucket (Some ''b--usw2-az2--x-s3''), None)] \<and>
   \<not> HasError (Diagnostics (DeleteResource (scriptedClient [Some notEmptyError]) ([], state0 True) 0)) \<and>
   State (DeleteResource (scriptedClient [Some notEmptyError]) ([], state0 True) 0) = None"
proof -
  have h1: "\<not> HasError (fst ([] :: diagnostic list, state0 True))"
    by (simp add: HasError_Nil)
  have h2: "DeleteBucket (scriptedClient [Some notEmptyError])
      (StringFromFramework (ID (snd ([] :: diagnostic list, state0 True)))) 0 = (Some notEmptyError, 1)"
    by (simp add: scriptedClient_def answer_def)
  have h3: "ErrCodeEquals (Some notEmptyError) errCodeBucketNotEmpty"
    by (simp add: notEmptyError_def errCodeBucketNotEmpty_def)
  have h4: "emptyDirectoryBucket (scriptedClient [Some notEmptyError])
      (ValueString (ID (snd ([] :: diagnostic list, state0 True)))) 1 = (None, 2)"
    by (simp add: scriptedClient_def answer_def)
  have h5: "DeleteBucket (scriptedClient [Some notEmptyError])
      (StringFromFramework (ID (snd ([] :: diagnostic list, state0 True)))) 2 = (None, 3)"
    by (simp add: scriptedClient_def answer_def)
  show ?thesis
    using Delete_not_empty [OF h1 h2 h3 h4 h5]
    by (simp add: Let_def state0_def)
qed

text \<open>
  C2 as stated fails: with \<open>force_destroy\<close> set and a drain that fails, the bucket is
  not drained and the delete call is made once, not retried.
\<close>

theorem Delete_drain_failure_counterexample:
  "ValueBool (ForceDestroy (state0 True)) \<and>
   ErrCodeEquals (Some notEmptyError) errCodeBucketNotEmpty \<and>
   Calls (DeleteResource (scriptedClient [Some notEmptyError, Some accessDeniedError])
            ([], state0 True) 0) =
     [(CallDeleteBucket (Some ''b--usw2-az2--x-s3''), Some notEmptyError),
      (CallEmptyDirectoryBucket ''b--usw2-az2--x-s3'', Some accessDeniedError)] \<and>
   State (DeleteResource (scriptedClient [Some notEmptyError, Some accessDeniedError])
            ([], state0 True) 0) = Some (state0 True) \<and>
   HasError (Diagnostics (DeleteResource (scriptedClient [Some notEmptyError, Some accessDeniedError])
            ([], state0 True) 0))"
  by (simp add: DeleteResource_def Delete_def Let_def scriptedClient_def answer_def state0_def
      notEmptyError_def accessDeniedError_def errCodeBucketNotEmpty_def HasError_Nil
      HasError_AddError Append.simps)

section \<open>The bucket name validator\<close>

subsection \<open>Matching by derivatives decides the language\<close>

lemma nullable_lang: "nullable r \<longleftrightarrow> [] \<in> lang r"
  by (induction r) (auto simp: conc_def intro: star.intros)

lemma conc_cons_iff:
  "c # w \<in> conc A B \<longleftrightarrow> ([] \<in> A \<and> c # w \<in> B) \<or> (\<exists>u v. w = u @ v \<and> c # u \<in> A \<and> v \<in> B)"
  unfolding conc_def
  by (auto simp: Cons_eq_append_conv)

lemma star_cons_iff:
  "c # w \<in> star A \<longleftrightarrow> (\<exists>u v. w = u @ v \<and> c # u \<in> A \<and> v \<in> star A)"
proof
  assume "c # w \<in> star A"
  then show "\<exists>u v. w = u @ v \<and> c # u \<in> A \<and> v \<in> star A"
  proof (induction "c # w" rule: star.induct)
    case (star_step u v)
    show ?case
    proof (cases u)
      case Nil
      with star_step show ?thesis by simp
    next
      case (Cons a u')
      with star_step show ?thesis by auto
    qed
  qed
next
  assume "\<exists>u v. w = u @ v \<and> c # u \<in> A \<and> v \<in> star A"
  then obtain u v where "w = u @ v" "c # u \<in> A" "v \<in> star A" by blast
  then have "(c # u) @ v \<in> star A" by (intro star.star_step)
  with \<open>w = u @ v\<close> show "c # w \<in> star A" by simp
qed

lemma deriv_lang: "w \<in> lang (deriv c r) \<longleftrightarrow> c # w \<in> lang r"
proof (induction r arbitrary: w)
  case (Literal s)
  then show ?case by (cases s) auto
next
  case (Concat r1 r2)
  then show ?case
    by (auto simp: conc_cons_iff nullable_lang) (auto simp: conc_def)
next
  case (Star r)
  then show ?case
    by (auto simp: star_cons_iff) (auto simp: conc_def)
next
  case (Plus r)
  then show ?case 
    by (auto simp: conc_cons_iff star_cons_iff) (auto simp: conc_def)
qed auto

lemma MatchString_lang: "MatchString r s \<longleftrightarrow> s \<in> lang r"
  by (induction s arbitrary: r) (simp_all add: nullable_lang deriv_lang)

subsection \<open>The language of the bucket name pattern\<close>

lemma nameClass_iff: "inClass nameClass c \<longleftrightarrow> nameChar c"
  by (cases c) (simp add: inClass_def nameClass_def inRange_def nameChar_def)


lemma azClass_iff: "inClass azClass c \<longleftrightarrow> azChar c"
  by (cases c) (simp add: inClass_def azClass_def inRange_def azChar_def)

lemma star_concat: "w \<in> star A \<longleftrightarrow> (\<exists>ws. w = concat ws \<and> set ws \<subseteq> A)"
proof
  assume "w \<in> star A"
  then show "\<exists>ws. w = concat ws \<and> set ws \<subseteq> A"
  proof (induction rule: star.induct)
    case star_nil
    have "[] = concat ([] :: string list) \<and> set ([] :: string list) \<subseteq> A" by simp
    then show ?case by blast
  next
    case (star_step u v)
    then obtain ws where "v = concat ws" "set ws \<subseteq> A" by blast
    with star_step.hyps(1) have "u @ v = concat (u # ws) \<and> set (u # ws) \<subseteq> A" by simp
    then show ?case by blast
  qed
next
  assume "\<exists>ws. w = concat ws \<and> set ws \<subseteq> A"
  then obtain ws where w: "w = concat ws" and sub: "set ws \<subseteq> A" by blast
  from sub have "concat ws \<in> star A"
    by (induction ws) (auto intro: star.intros)
  with w show "w \<in> star A" by simp
qed

lemma star_class: "w \<in> star {[c] | c. P c} \<longleftrightarrow> list_all P w"
proof
  assume "w \<in> star {[c] | c. P c}"
  then show "list_all P w"
    by (induction rule: star.induct) auto
next
  assume "list_all P w"
  then show "w \<in> star {[c] | c. P c}"
  proof (induction w)
    case Nil
    show ?case by (rule star.star_nil)
  next
    case (Cons c w)
    then have "[c] \<in> {[c] | c. P c}" and "w \<in> star {[c] | c. P c}" by auto
    then have "[c] @ w \<in> star {[c] | c. P c}" by (rule star.star_step)
    then show ?case by simp
  qed
qed

lemma lang_plus_class:
  "w \<in> lang (Plus (CharClass rs)) \<longleftrightarrow> w \<noteq> [] \<and> list_all (inClass rs) w"
proof -
  have "w \<in> lang (Plus (CharClass rs)) \<longleftrightarrow>
        (\<exists>c v. w = c # v \<and> inClass rs c \<and> v \<in> star {[c] | c. inClass rs c})"
  proof
    assume "w \<in> lang (Plus (CharClass rs))"
    then show "\<exists>c v. w = c # v \<and> inClass rs c \<and> v \<in> star {[c] | c. inClass rs c}"
      by (auto simp: conc_def)
  next
    assume "\<exists>c v. w = c # v \<and> inClass rs c \<and> v \<in> star {[c] | c. inClass rs c}"
    then obtain c v where cv: "w = c # v" "inClass rs c" "v \<in> star {[c] | c. inClass rs c}"
      by blast
    then have "[c] @ v \<in> conc {[c] | c. inClass rs c} (star {[c] | c. inClass rs c})"
      unfolding conc_def by blast
    with cv show "w \<in> lang (Plus (CharClass rs))" by simp
  qed
  also have "\<dots> \<longleftrightarrow> (\<exists>c v. w = c # v \<and> inClass rs c \<and> list_all (inClass rs) v)"
    by (simp add: star_class)
  also have "\<dots> \<longleftrightarrow> w \<noteq> [] \<and> list_all (inClass rs) w"
    by (cases w) auto
  finally show ?thesis .
qed

lemma lang_azSegment: "w \<in> lang (Plus (CharClass azClass)) \<longleftrightarrow> azSegment w"
  by (simp add: lang_plus_class azSegment_def azClass_iff[abs_def] del: lang.simps)

lemma lang_hyphen_segment:
  "w \<in> lang (Concat (Literal ''-'') (Plus (CharClass azClass))) \<longleftrightarrow>
   (\<exists>p. w = CHR ''-'' # p \<and> azSegment p)"
proof -
  have "w \<in> lang (Concat (Literal ''-'') (Plus (CharClass azClass))) \<longleftrightarrow>
        (\<exists>p. w = ''-'' @ p \<and> p \<in> lang (Plus (CharClass azClass)))"
    by (auto simp: conc_def simp del: lang.simps(8))
  then show ?thesis by (simp add: lang_azSegment del: lang.simps)
qed

lemma star_hyphen_segments:
  "w \<in> star (lang (Concat (Literal ''-'') (Plus (CharClass azClass)))) \<longleftrightarrow>
   (\<exists>ps. w = concat (map (\<lambda>p. CHR ''-'' # p) ps) \<and> list_all azSegment ps)"
  (is "w \<in> star ?A \<longleftrightarrow> ?R")
proof
  assume "w \<in> star ?A"
  then show ?R
  proof (induction rule: star.induct)
    case star_nil
    have "[] = concat (map (\<lambda>p. CHR ''-'' # p) []) \<and> list_all azSegment []" by simp
    then show ?case by blast
  next
    case (star_step u v)
    from star_step.hyps(1) obtain p where p: "u = CHR ''-'' # p" "azSegment p"
      using lang_hyphen_segment by blast
    from star_step.IH obtain ps where
      ps: "v = concat (map (\<lambda>p. CHR ''-'' # p) ps)" "list_all azSegment ps" by blast
    from p ps have "u @ v = concat (map (\<lambda>p. CHR ''-'' # p) (p # ps)) \<and> list_all azSegment (p # ps)"
      by simp
    then show ?case by blast
  qed
next
  assume ?R
  then obtain ps where w: "w = concat (map (\<lambda>p. CHR ''-'' # p) ps)" and all: "list_all azSegment ps"
    by blast
  from all have "concat (map (\<lambda>p. CHR ''-'' # p) ps) \<in> star ?A"
  proof (induction ps)
    case Nil
    show ?case by (simp add: star.star_nil del: lang.simps)
  next
    case (Cons p ps)
    then have "CHR ''-'' # p \<in> ?A" using lang_hyphen_segment by auto
    moreover from Cons have "concat (map (\<lambda>p. CHR ''-'' # p) ps) \<in> star ?A" by simp
    ultimately have "(CHR ''-'' # p) @ concat (map (\<lambda>p. CHR ''-'' # p) ps) \<in> star ?A"
      by (rule star.star_step)
    then show ?case by simp
  qed
  with w show "w \<in> star ?A" by simp
qed

lemma lang_hyphen_segments:
  "w \<in> lang (Plus (Concat (Literal ''-'') (Plus (CharClass azClass)))) \<longleftrightarrow>
   (\<exists>ps. w = concat (map (\<lambda>p. CHR ''-'' # p) ps) \<and> ps \<noteq> [] \<and> list_all azSegment ps)"
  (is "?L \<longleftrightarrow> ?R")
proof
  assume ?L
  then obtain u v where uv: "w = u @ v"
      "u \<in> lang (Concat (Literal ''-'') (Plus (CharClass azClass)))"
      "v \<in> star (lang (Concat (Literal ''-'') (Plus (CharClass azClass))))"
    unfolding lang.simps(8) conc_def by blast
  from uv(2) obtain p where p: "u = CHR ''-'' # p" "azSegment p"
    using lang_hyphen_segment by blast
  from uv(3) obtain ps where ps: "v = concat (map (\<lambda>p. CHR ''-'' # p) ps)" "list_all azSegment ps"
    using star_hyphen_segments by blast
  from uv(1) p ps have "w = concat (map (\<lambda>p. CHR ''-'' # p) (p # ps)) \<and> p # ps \<noteq> [] \<and>
      list_all azSegment (p # ps)" by simp
  then show ?R by blast
next
  assume ?R
  then obtain ps where ps: "w = concat (map (\<lambda>p. CHR ''-'' # p) ps)" "ps \<noteq> []" "list_all azSegment ps"
    by blast
  then obtain p qs where pq: "ps = p # qs" by (cases ps) auto
  with ps have "CHR ''-'' # p \<in> lang (Concat (Literal ''-'') (Plus (CharClass azClass)))"
    using lang_hyphen_segment by auto
  moreover from ps pq have
    "concat (map (\<lambda>p. CHR ''-'' # p) qs) \<in> star (lang (Concat (Literal ''-'') (Plus (CharClass azClass))))"
    using star_hyphen_segments by auto
  ultimately have "(CHR ''-'' # p) @ concat (map (\<lambda>p. CHR ''-'' # p) qs)
      \<in> conc (lang (Concat (Literal ''-'') (Plus (CharClass azClass))))
             (star (lang (Concat (Literal ''-'') (Plus (CharClass azClass)))))"
    unfolding conc_def by blast
  with ps pq show ?L unfolding lang.simps(8) by simp
qed

lemma lang_zone: 
  "z \<in> lang (Concat (Plus (CharClass azClass)) (Plus (Concat (Literal ''-'') (Plus (CharClass azClass)))))
   \<longleftrightarrow> isZoneId z"
proof -
  have "z \<in> lang (Concat (Plus (CharClass azClass)) (Plus (Concat (Literal ''-'') (Plus (CharClass azClass)))))
    \<longleftrightarrow> (\<exists>a v. z = a @ v \<and> a \<in> lang (Plus (CharClass azClass)) \<and>
           v \<in> lang (Plus (Concat (Literal ''-'') (Plus (CharClass azClass)))))"
    unfolding lang.simps(5) conc_def by blast
  also have "\<dots> \<longleftrightarrow> isZoneId z"
    unfolding lang_azSegment lang_hyphen_segments isZoneId_def by blast
  finally show ?thesis .
qed

lemma lang_directoryBucketNameRegex:
  "s \<in> lang directoryBucketNameRegex \<longleftrightarrow> isDirectoryBucketName s"
proof -
  let ?zone = "Concat (Plus (CharClass azClass)) (Plus (Concat (Literal ''-'') (Plus (CharClass azClass))))"
  have "s \<in> lang directoryBucketNameRegex \<longleftrightarrow>
        (\<exists>n t. s = n @ t \<and> n \<in> lang (Plus (CharClass nameClass)) \<and>
           t \<in> lang (Concat (Literal ''--'') (Concat ?zone (Literal ''--x-s3''))))"
    unfolding directoryBucketNameRegex_def lang.simps(5)[of "Plus (CharClass nameClass)"] conc_def
    by blast
  also have "\<dots> \<longleftrightarrow> (\<exists>n z. s = n @ ''--'' @ z @ ''--x-s3'' \<and> n \<in> lang (Plus (CharClass nameClass))
       \<and> z \<in> lang ?zone)"
    unfolding lang.simps(5)[of "Literal ''--''"] lang.simps(5)[of ?zone] lang.simps(4) conc_def
    by blast
  also have "\<dots> \<longleftrightarrow> isDirectoryBucketName s"
    unfolding lang_zone lang_plus_class isDirectoryBucketName_def nameClass_iff[abs_def]
    by blast
  finally show ?thesis .
qed

lemma MatchString_directoryBucketNameRegex:
  "MatchString directoryBucketNameRegex s \<longleftrightarrow> isDirectoryBucketName s"
  by (simp only: MatchString_lang lang_directoryBucketNameRegex)

lemma validateBucket_Known:
  "validateBucket (Known s) = [] \<longleftrightarrow> MatchString directoryBucketNameRegex s"
  by (simp add: validateBucket_def RegexMatches_def)

lemma validateBucket_HasError:
  "HasError (validateBucket (Known s)) \<longleftrightarrow> \<not> MatchString directoryBucketNameRegex s"
  by (simp add: validateBucket_def RegexMatches_def HasError_Nil HasError_error)

lemma MatchString_example: "MatchString directoryBucketNameRegex ''b--usw2-az2--x-s3''"
  by (simp add: directoryBucketNameRegex_def nameClass_def azClass_def inClass_def inRange_def)

lemma MatchString_my_bucket: "\<not> MatchString directoryBucketNameRegex ''my-bucket''"
  by (simp add: directoryBucketNameRegex_def nameClass_def azClass_def inClass_def inRange_def)

text \<open>
  C5. The validator of \<open>bucket\<close> accepts \<open>b--usw2-az2--x-s3\<close> and rejects
  \<open>my-bucket\<close> with an error; in general a known bucket name passes exactly when it
  matches the directory bucket pattern: a name part, \<open>--\<close>, a zone id and the suffix
  \<open>--x-s3\<close>. A configuration whose bucket is \<open>my-bucket\<close> is turned away with the
  validation error before Create runs, with no remote call made; one that validates goes on
  to Create.
\<close>

theorem validateBucket_pattern:
  "validateBucket (Known ''b--usw2-az2--x-s3'') = [] \<and>
   HasError (validateBucket (Known ''my-bucket'')) \<and>
   (validateBucket (Known s) = [] \<longleftrightarrow> isDirectoryBucketName s) \<and>
   (HasError (validateBucket (Known s)) \<longleftrightarrow> \<not> isDirectoryBucketName s) \<and>
   (Bucket config = Known ''my-bucket'' \<longrightarrow>
      ValidatedCreate fw conn config plan r =
        Returns \<lparr>Diagnostics = ValidateConfig config, State = None, Remote = r, Calls = []\<rparr> \<and>
      HasError (ValidateConfig config)) \<and>
   (\<not> HasError (ValidateConfig config) \<longrightarrow>
      ValidatedCreate fw conn config plan r = Create fw conn plan r)"
proof (intro conjI impI)
  show "validateBucket (Known ''b--usw2-az2--x-s3'') = []"
    by (simp only: validateBucket_Known MatchString_example)
  show "HasError (validateBucket (Known ''my-bucket''))"
    by (simp only: validateBucket_HasError MatchString_my_bucket not_False_eq_True)
  show "validateBucket (Known s) = [] \<longleftrightarrow> isDirectoryBucketName s"
    by (simp only: validateBucket_Known MatchString_directoryBucketNameRegex)
  show "HasError (validateBucket (Known s)) \<longleftrightarrow> \<not> isDirectoryBucketName s"
    by (simp only: validateBucket_HasError MatchString_directoryBucketNameRegex)
next
  assume b: "Bucket config = Known ''my-bucket''"
  have "HasError (validateBucket (Known ''my-bucket''))"
    by (simp only: validateBucket_HasError MatchString_my_bucket not_False_eq_True)
  with b show h: "HasError (ValidateConfig config)"
    by (simp add: ValidateConfig_def HasError_append)
  then show "ValidatedCreate fw conn config plan r =
        Returns \<lparr>Diagnostics = ValidateConfig config, State = None, Remote = r, Calls = []\<rparr>"
    by (simp add: ValidatedCreate_def)
next
  assume "\<not> HasError (ValidateConfig config)"
  then show "ValidatedCreate fw conn config plan r = Create fw conn plan r"
    by (simp add: ValidatedCreate_def)
qed

theorem validateBucket_pattern_witness:
  "isDirectoryBucketName ''b--usw2-az2--x-s3'' \<and> \<not> isDirectoryBucketName ''my-bucket'' \<and>
   ValidatedCreate framework0 (scriptedClient []) (plan0\<lparr>Bucket := Known ''my-bucket''\<rparr>)
       ([], plan0\<lparr>Bucket := Known ''my-bucket''\<rparr>) 0 =
     Returns \<lparr>Diagnostics = ValidateConfig (plan0\<lparr>Bucket := Known ''my-bucket''\<rparr>),
       State = None, Remote = 0, Calls = []\<rparr> \<and>
   ValidatedCreate framework0 (scriptedClient []) plan0 ([], plan0) 0 =
     Create framework0 (scriptedClient []) ([], plan0) 0"
proof -
  have b: "Bucket (plan0\<lparr>Bucket := Known ''my-bucket''\<rparr>) = Known ''my-bucket''"
    by simp
  have v: "\<not> HasError (ValidateConfig plan0)"
    using validateBucket_pattern [of "''b--usw2-az2--x-s3''" plan0 framework0 "scriptedClient []" "([], plan0)" 0]
    by (simp add: ValidateConfig_def plan0_def validateLocation_def HasError_Nil)
  note bad = validateBucket_pattern
      [of "''b--usw2-az2--x-s3''" "plan0\<lparr>Bucket := Known ''my-bucket''\<rparr>" framework0
          "scriptedClient []" "([], plan0\<lparr>Bucket := Known ''my-bucket''\<rparr>)" 0]
  note good = validateBucket_pattern
      [of "''my-bucket''" plan0 framework0 "scriptedClient []" "([], plan0)" 0]
  from bad have c1: "isDirectoryBucketName ''b--usw2-az2--x-s3''" by blast
  from good have c2: "\<not> isDirectoryBucketName ''my-bucket''" by blast
  from bad b have c3: "ValidatedCreate framework0 (scriptedClient []) (plan0\<lparr>Bucket := Known ''my-bucket''\<rparr>)
                 ([], plan0\<lparr>Bucket := Known ''my-bucket''\<rparr>) 0 =
      Returns \<lparr>Diagnostics = ValidateConfig (plan0\<lparr>Bucket := Known ''my-bucket''\<rparr>),
        State = None, Remote = 0, Calls = []\<rparr>" by blast
  from good v have c4: "ValidatedCreate framework0 (scriptedClient []) plan0 ([], plan0) 0 =
     Create framework0 (scriptedClient []) ([], plan0) 0" by blast
  from c1 c2 c3 c4 show ?thesis by blast
qed

section \<open>Read of the connector profile\<close>

lemma Get_credentials_flatten:
  "Get_connector_profile_credentials
     (d\<lparr>attr_connector_profile_config := flattenConnectorProfileConfig cpp cpc\<rparr>) = cpc"
  by (simp add: Get_connector_profile_credentials_def flattenConnectorProfileConfig_def)

lemma Get_properties_flatten:
  "Get_connector_profile_properties
     (d\<lparr>attr_connector_profile_config := flattenConnectorProfileConfig cpp cpc\<rparr>) =
   flattenConnectorProfileProperties cpp"
  by (simp add: Get_connector_profile_properties_def flattenConnectorProfileConfig_def)

lemma Get_credentials_other [simp]:
  "Get_connector_profile_credentials (d\<lparr>Id := i\<rparr>) = Get_connector_profile_credentials d"
  "Get_connector_profile_credentials (d\<lparr>attr_arn := a\<rparr>) = Get_connector_profile_credentials d"
  "Get_connector_profile_credentials (d\<lparr>attr_connection_mode := a\<rparr>) = Get_connector_profile_credentials d"
  "Get_connector_profile_credentials (d\<lparr>attr_connector_label := a\<rparr>) = Get_connector_profile_credentials d"
  "Get_connector_profile_credentials (d\<lparr>attr_connector_type := a\<rparr>) = Get_connector_profile_credentials d"
  "Get_connector_profile_credentials (d\<lparr>attr_credentials_arn := a\<rparr>) = Get_connector_profile_credentials d"
  "Get_connector_profile_credentials (d\<lparr>attr_name := a\<rparr>) = Get_connector_profile_credentials d"
  by (simp_all add: Get_connector_profile_credentials_def)

lemma Get_properties_other [simp]:
  "Get_connector_profile_properties (d\<lparr>attr_connector_type := a\<rparr>) = Get_connector_profile_properties d"
  "Get_connector_profile_properties (d\<lparr>attr_credentials_arn := a\<rparr>) = Get_connector_profile_properties d"
  "Get_connector_profile_properties (d\<lparr>attr_name := a\<rparr>) = Get_connector_profile_properties d"
  by (simp_all add: Get_connector_profile_properties_def)

text \<open>
  C9. After every Read of a connector profile that returns without an error, the
  credentials block of the resulting data is the credentials block of the prior data: the
  remote response contributes nothing to it. Unless the Read removed the object (not found,
  not a new resource), the whole \<open>connector_profile_config\<close> block is the flattened
  response around those credentials, so its properties block is the flattened remote
  properties.
\<close>

theorem Read_keeps_credentials:
  assumes "resourceConnectorProfileRead conn d r = Returns res" and "\<not> HasError (Diags res)"
  shows "Get_connector_profile_credentials (Data res) = Get_connector_profile_credentials d \<and>
     (if \<not> IsNewResource d \<and> NotFound (snd (fst (findConnectorProfileByName conn (Id d) r)))
      then Data res = d\<lparr>Id := []\<rparr>
      else (\<exists>cp cpp. fst (findConnectorProfileByName conn (Id d) r) = (Some cp, None) \<and>
              ConnectorProfileProperties cp = Some cpp \<and>
              attr_connector_profile_config (Data res) =
                flattenConnectorProfileConfig cpp (Get_connector_profile_credentials d) \<and>
              Get_connector_profile_properties (Data res) = flattenConnectorProfileProperties cpp))"
proof (cases "\<not> IsNewResource d \<and> NotFound (snd (fst (findConnectorProfileByName conn (Id d) r)))")
  case True
  with assms(1) have "Data res = d\<lparr>Id := []\<rparr>"
    by (auto simp: resourceConnectorProfileRead_def Let_def)
  with True show ?thesis by simp
next
  case False
  obtain cpo err where f: "fst (findConnectorProfileByName conn (Id d) r) = (cpo, err)"
    by (cases "fst (findConnectorProfileByName conn (Id d) r)")
  from assms False f have e: "err = None"
    by (cases err)
       (auto simp: resourceConnectorProfileRead_def Let_def AppendErrorf_def HasError_error)
  from assms(1) False f e obtain cp where cp: "cpo = Some cp"
    by (cases cpo) (auto simp: resourceConnectorProfileRead_def Let_def)
  from assms(1) False f e cp obtain cpp where cpp: "ConnectorProfileProperties cp = Some cpp"
    by (cases "ConnectorProfileProperties cp") (auto simp: resourceConnectorProfileRead_def Let_def)
  from assms(1) False f e cp cpp have
    data: "Data res = d\<lparr>attr_arn := ToString (ConnectorProfileArn cp),
        attr_connection_mode := ConnectorProfile.ConnectionMode cp,
        attr_connector_label := ToString (ConnectorProfile.ConnectorLabel cp),
        attr_connector_profile_config :=
          flattenConnectorProfileConfig cpp (Get_connector_profile_credentials d),
        attr_connector_type := ConnectorProfile.ConnectorType cp,
        attr_credentials_arn := ToString (CredentialsArn cp),
        attr_name := ToString (ConnectorProfile.ConnectorProfileName cp)\<rparr>"
    by (auto simp: resourceConnectorProfileRead_def Let_def)
  have c: "Get_connector_profile_credentials (Data res) = Get_connector_profile_credentials d"
    unfolding data by (simp add: Get_credentials_flatten)
  have p: "Get_connector_profile_properties (Data res) = flattenConnectorProfileProperties cpp"
    unfolding data by (simp add: Get_properties_flatten)
  have cfg: "attr_connector_profile_config (Data res) =
      flattenConnectorProfileConfig cpp (Get_connector_profile_credentials d)"
    unfolding data by simp
  from False f e cp cpp c p cfg show ?thesis by auto
qed

lemma find_profile0:
  "findConnectorProfileByName (scriptedAppFlow [] [profile0]) ''example'' 0 =
     ((Some profile0, None), 1, [(CallDescribeConnectorProfiles [''example''], None)])"
  by (simp add: findConnectorProfileByName_def Let_def scriptedAppFlow_def answer_def
      AssertSingleValueResult_def)

lemma flatten_slack:
  "flattenConnectorProfileProperties slackProperties =
     [AMap [(''slack'', AList [AMap [(''instance_url'', AString ''https://example.slack.com'')]])]]"
  by (simp add: flattenConnectorProfileProperties_def sharedMap_def setInstanceUrl_def
      slackProperties_def emptyProperties_def ToString_def Let_def)

theorem Read_keeps_credentials_witness:
  "Get_connector_profile_credentials
     (d0\<lparr>attr_arn := ''arn:aws:appflow:us-west-2:123456789012:connectorprofile/example'',
         attr_connector_profile_config := flattenConnectorProfileConfig slackProperties credentials0,
         attr_credentials_arn := ''arn:aws:secretsmanager:us-west-2:123456789012:secret:appflow!example''\<rparr>)
     = credentials0 \<and>
   Get_connector_profile_properties
     (d0\<lparr>attr_arn := ''arn:aws:appflow:us-west-2:123456789012:connectorprofile/example'',
         attr_connector_profile_config := flattenConnectorProfileConfig slackProperties credentials0,
         attr_credentials_arn := ''arn:aws:secretsmanager:us-west-2:123456789012:secret:appflow!example''\<rparr>)
     = [AMap [(''slack'', AList [AMap [(''instance_url'', AString ''https://example.slack.com'')]])]]"
proof -
  have g: "Get_connector_profile_credentials d0 = credentials0"
    by (simp add: Get_connector_profile_credentials_def d0_def)
  have idd: "Id d0 = ''example''"
    by (simp add: d0_def)
  have r: "resourceConnectorProfileRead (scriptedAppFlow [] [profile0]) d0 0 =
      Returns \<lparr>Diags = [],
        Data = d0\<lparr>attr_arn := ''arn:aws:appflow:us-west-2:123456789012:connectorprofile/example'',
          attr_connector_profile_config := flattenConnectorProfileConfig slackProperties credentials0,
          attr_credentials_arn := ''arn:aws:secretsmanager:us-west-2:123456789012:secret:appflow!example''\<rparr>,
        Conn = 1, Log = [(CallDescribeConnectorProfiles [''example''], None)]\<rparr>"
    unfolding resourceConnectorProfileRead_def idd find_profile0 g
    by (simp add: Let_def) (simp add: d0_def profile0_def ToString_def)
  have e: "\<not> HasError (Diags \<lparr>Diags = [],
        Data = d0\<lparr>attr_arn := ''arn:aws:appflow:us-west-2:123456789012:connectorprofile/example'',
          attr_connector_profile_config := flattenConnectorProfileConfig slackProperties credentials0,
          attr_credentials_arn := ''arn:aws:secretsmanager:us-west-2:123456789012:secret:appflow!example''\<rparr>,
        Conn = (1::nat), Log = [(CallDescribeConnectorProfiles [''example''], None)]\<rparr>)"
    by (simp add: HasError_Nil)
  have n: "\<not> (\<not> IsNewResource d0 \<and>
      NotFound (snd (fst (findConnectorProfileByName (scriptedAppFlow [] [profile0]) (Id d0) 0))))"
    unfolding idd find_profile0 by simp
  have f: "fst (findConnectorProfileByName (scriptedAppFlow [] [profile0]) (Id d0) 0) = (Some profile0, None)"
    unfolding idd find_profile0 by simp
  have pp: "ConnectorProfileProperties profile0 = Some slackProperties"
    by (simp add: profile0_def)
  from Read_keeps_credentials [OF r e] n f pp g show ?thesis
    by (auto simp: flatten_slack)
qed

section \<open>The diff engine\<close>

lemma list_exI: "x \<in> set xs \<Longrightarrow> P x \<Longrightarrow> list_ex P xs"
  by (auto simp: list_ex_iff)

lemma diffList_zip: "(d, p) \<in> set (zip ds ps) \<Longrightarrow> f d p \<in> set (diffList f ds ps)"
  by (induction f ds ps rule: diffList.induct) auto

lemma diffAttr_replacement: 
  assumes "a \<in> set as" "replacementOnChange a" "isKnown (attrValue d (attrName a))"
        "isKnown (attrValue p (attrName a))" "attrValue d (attrName a) \<noteq> attrValue p (attrName a)"
  shows "diffAttr a d p = RequiresReplacement" using assms by (simp add: diffAttr_def)

lemma attribute_mark_found:
  assumes "a \<in> set as" and "diffAttr a d p = RequiresReplacement"
  shows "list_ex (\<lambda>(n, c). c = RequiresReplacement) (map (\<lambda>a. (attrName a, diffAttr a d p)) as)"
proof (rule list_exI)
  show "(attrName a, diffAttr a d p) \<in> set (map (\<lambda>a. (attrName a, diffAttr a d p)) as)"
    unfolding set_map using assms(1) by (rule imageI)
  show "case (attrName a, diffAttr a d p) of (n, c) \<Rightarrow> c = RequiresReplacement"
    using assms(2) by simp
qed

lemma block_mark_found:
  assumes "(bn, mx, sub) \<in> set bs"
    and "list_ex requiresReplacement (diffList (diffObj sub) (blockElems d bn) (blockElems p bn))"
  shows "list_ex (\<lambda>(n, css). list_ex requiresReplacement css)
        (map (\<lambda>(bn, mx, sub). (bn, diffList (diffObj sub) (blockElems d bn) (blockElems p bn))) bs)"
proof (rule list_exI)
  have "(\<lambda>(bn, mx, sub). (bn, diffList (diffObj sub) (blockElems d bn) (blockElems p bn))) (bn, mx, sub)
      \<in> set (map (\<lambda>(bn, mx, sub). (bn, diffList (diffObj sub) (blockElems d bn) (blockElems p bn))) bs)"
    unfolding set_map using assms(1) by (rule imageI)
  then show "(bn, diffList (diffObj sub) (blockElems d bn) (blockElems p bn))
      \<in> set (map (\<lambda>(bn, mx, sub). (bn, diffList (diffObj sub) (blockElems d bn) (blockElems p bn))) bs)"
    by simp
  show "case (bn, diffList (diffObj sub) (blockElems d bn) (blockElems p bn)) of
          (n, css) \<Rightarrow> list_ex requiresReplacement css"
    using assms(2) by simp
qed

lemma diffObj_mismatch: "replacementMismatch schema d p \<Longrightarrow> requiresReplacement (diffObj schema d p)"
proof (induction schema arbitrary: d p rule: replacementMismatch.induct)
  case (1 as bs)
  from "1.prems" consider
    (top) a where "a \<in> set as" "replacementOnChange a" "isKnown (attrValue d (attrName a))"
        "isKnown (attrValue p (attrName a))" "attrValue d (attrName a) \<noteq> attrValue p (attrName a)"
  | (nested) bn mx sub d' p' where "(bn, mx, sub) \<in> set bs"
        "(d', p') \<in> set (zip (blockElems d bn) (blockElems p bn))" "replacementMismatch sub d' p'"
    by (auto simp: list_ex_iff)
  then show ?case
  proof cases
    case top
    then have "diffAttr a d p = RequiresReplacement" by (rule diffAttr_replacement)
    with top(1) have "list_ex (\<lambda>(n, c). c = RequiresReplacement) (map (\<lambda>a. (attrName a, diffAttr a d p)) as)"
      by (rule attribute_mark_found)
    then show ?thesis unfolding diffObj.simps requiresReplacement.simps by (rule disjI1)
  next
    case nested
    with "1.IH" have "requiresReplacement (diffObj sub d' p')" by blast
    moreover from nested(2) have "diffObj sub d' p' \<in> set (diffList (diffObj sub) (blockElems d bn) (blockElems p bn))"
      by (rule diffList_zip)
    ultimately have ex: "list_ex requiresReplacement (diffList (diffObj sub) (blockElems d bn) (blockElems p bn))"
      by (rule list_exI[rotated])
    with nested(1) have "list_ex (\<lambda>(n, css). list_ex requiresReplacement css)
        (map (\<lambda>(bn, mx, sub). (bn, diffList (diffObj sub) (blockElems d bn) (blockElems p bn))) bs)"
      by (rule block_mark_found)
    then show ?thesis unfolding diffObj.simps requiresReplacement.simps by (rule disjI2)
  qed
qed







text \<open>
  C6, on the diff engine as the specification describes it. Whenever some attribute
  marked replacement-on-change, at any depth of the schema, has known desired and prior
  values that differ, the change set computed for the plan marks the whole resource
  requires-replacement, whatever else changes in the same plan, and Update rejects that
  change set without calling the remote update.
\<close>

theorem replacement_marks_whole_resource:
  assumes "replacementMismatch schema desired prior"
    and "computeChangeSet desired prior schema = Inr cs"
  shows "requiresReplacement cs \<and> Update cs remoteUpdate state = Inl RejectedRequiresReplacement"
proof -
  from assms(2) have "cs = diffObj schema desired prior"
    by (auto simp: computeChangeSet_def split: list.splits)
  with assms(1) have "requiresReplacement cs"
    by (simp add: diffObj_mismatch)
  then show ?thesis by (simp add: Update_def)
qed


lemma schema_evaluation:
  "validateObj directoryBucketSchema desired0 = []"
  "validateObj directoryBucketSchema prior0 = []"
  by (simp_all add: directoryBucketSchema_def desired0_def prior0_def stringAttribute_def
      validateAttr_def directoryBucketNameRegex_def nameClass_def azClass_def inClass_def
      inRange_def)

lemma diff_desired0:
  "diffObj directoryBucketSchema desired0 prior0 =
     ChangeSet
       [(''arn'', ComputedPending), (''bucket'', RequiresReplacement),
        (''data_redundancy'', Unchanged),
        (''force_destroy'', SetToValue (Known (VBool True))),
        (''id'', ComputedPending), (''type'', Unchanged)]
       [(''location'', [ChangeSet [(''name'', Unchanged), (''type'', Unchanged)] []])]"
  by (simp add: directoryBucketSchema_def desired0_def prior0_def stringAttribute_def
      diffAttr_def computedOnly_def)

theorem replacement_marks_whole_resource_witness:
  "computeChangeSet desired0 prior0 directoryBucketSchema =
     Inr (ChangeSet
       [(''arn'', ComputedPending), (''bucket'', RequiresReplacement),
        (''data_redundancy'', Unchanged),
        (''force_destroy'', SetToValue (Known (VBool True))),
        (''id'', ComputedPending), (''type'', Unchanged)]
       [(''location'', [ChangeSet [(''name'', Unchanged), (''type'', Unchanged)] []])]) \<and>
   Update (ChangeSet
       [(''arn'', ComputedPending), (''bucket'', RequiresReplacement),
        (''data_redundancy'', Unchanged),
        (''force_destroy'', SetToValue (Known (VBool True))),
        (''id'', ComputedPending), (''type'', Unchanged)]
       [(''location'', [ChangeSet [(''name'', Unchanged), (''type'', Unchanged)] []])])
     (\<lambda>cs s. Inr s) prior0 = Inl RejectedRequiresReplacement"
proof -
  have m: "replacementMismatch directoryBucketSchema desired0 prior0"
    by (simp add: directoryBucketSchema_def desired0_def prior0_def stringAttribute_def)
  have c: "computeChangeSet desired0 prior0 directoryBucketSchema =
     Inr (ChangeSet
       [(''arn'', ComputedPending), (''bucket'', RequiresReplacement),
        (''data_redundancy'', Unchanged),
        (''force_destroy'', SetToValue (Known (VBool True))),
        (''id'', ComputedPending), (''type'', Unchanged)]
       [(''location'', [ChangeSet [(''name'', Unchanged), (''type'', Unchanged)] []])])"
    by (simp add: computeChangeSet_def schema_evaluation diff_desired0)
  from replacement_marks_whole_resource [OF m c, of "\<lambda>cs s. Inr s" prior0] c
  show ?thesis by blast
qed





section \<open>Surfaced errors\<close>

lemma IsError_error [simp]: "IsError (NewErrorDiagnostic s d)"
  by (simp add: IsError_def NewErrorDiagnostic_def)

lemma IsError_warning [simp]: "\<not> IsError (NewWarningDiagnostic s d)"
  by (simp add: IsError_def NewWarningDiagnostic_def)

lemma carries_framed:
  "carries (NewErrorDiagnostic (operation @ middle @ ''('' @ identity @ '')'' @ rest) detail)
     operation identity"
proof -
  have "sublist operation (operation @ middle @ ''('' @ identity @ '')'' @ rest)"
    by (rule sublist_append_rightI)
  moreover have "sublist (''('' @ identity @ '')'')
      ((operation @ middle) @ (''('' @ identity @ '')'') @ rest)"
    by (rule sublist_appendI)
  ultimately show ?thesis
    by (simp add: carries_def NewErrorDiagnostic_def)
qed

lemma carries_bucket:
  "carries (NewErrorDiagnostic (operation @ '' S3 Directory Bucket ('' @ identity @ '')'') detail)
     operation identity"
  using carries_framed [of operation "'' S3 Directory Bucket ''" identity "[]" detail]
  by simp

lemma carries_profile:
  "carries (NewErrorDiagnostic
      (operation @ '' AppFlow Connector Profile ('' @ identity @ ''): '' @ text) detail)
     operation identity"
  using carries_framed [of operation "'' AppFlow Connector Profile ''" identity "'': '' @ text" detail]
  by simp

lemma reports_detail: "reports (NewErrorDiagnostic s (Error e)) e"
  by (simp add: reports_def NewErrorDiagnostic_def)

lemma reports_summary: "reports (NewErrorDiagnostic (before @ Error e) detail) e"
  by (simp add: reports_def NewErrorDiagnostic_def)

lemma errorsCarry_append:
  "errorsCarry passed (xs @ ys) operations identity \<longleftrightarrow>
   errorsCarry passed xs operations identity \<and> errorsCarry passed ys operations identity"
  by (auto simp: errorsCarry_def)

lemma errorsCarry_set:
  "set ds = set ds' \<Longrightarrow>
   errorsCarry passed ds operations identity = errorsCarry passed ds' operations identity"
  by (simp add: errorsCarry_def)

lemma errorsCarry_Append:
  "errorsCarry passed (Append xs ys) operations identity \<longleftrightarrow>
   errorsCarry passed xs operations identity \<and> errorsCarry passed ys operations identity"
  by (auto simp: errorsCarry_def set_Append)

lemma errorsCarry_AddError:
  "errorsCarry passed (AddError xs s d) operations identity \<longleftrightarrow>
   errorsCarry passed xs operations identity \<and>
   errorsCarry passed [NewErrorDiagnostic s d] operations identity"
  by (auto simp: errorsCarry_def set_AddError)

lemma errorsCarry_Nil: "errorsCarry passed [] operations identity"
  by (simp add: errorsCarry_def)

lemma errorsCarry_passed:
  "(\<And>d. d \<in> set ds \<Longrightarrow> passed d) \<Longrightarrow> errorsCarry passed ds operations identity"
  by (auto simp: errorsCarry_def)

lemma errorsCarry_single:
  "operation \<in> set operations \<Longrightarrow> carries d operation identity \<Longrightarrow>
   errorsCarry passed [d] operations identity"
  by (auto simp: errorsCarry_def)

lemma errorsCarry_warning: "errorsCarry passed [NewWarningDiagnostic s d] operations identity"
  by (simp add: errorsCarry_def)

lemma errorsCarry_more:
  "errorsCarry passed ds operations identity \<Longrightarrow> set operations \<subseteq> set operations' \<Longrightarrow>
   errorsCarry passed ds operations' identity"
  by (fastforce simp: errorsCarry_def)

lemma noneSwallowed_Nil: "noneSwallowed [] diags excepted"
  by (simp add: noneSwallowed_def)

lemma noneSwallowed_Cons:
  "noneSwallowed ((c, err) # cs) diags excepted \<longleftrightarrow>
   (case err of
      None \<Rightarrow> True
    | Some e \<Rightarrow> excepted c e \<or> (\<exists>d \<in> set diags. IsError d \<and> reports d e)) \<and>
   noneSwallowed cs diags excepted"
  by (cases err) (auto simp: noneSwallowed_def)

lemma noneSwallowed_append:
  "noneSwallowed (cs @ cs') diags excepted \<longleftrightarrow>
   noneSwallowed cs diags excepted \<and> noneSwallowed cs' diags excepted"
  by (auto simp: noneSwallowed_def)

lemma reported_AddError:
  "\<exists>d \<in> set (AddError ds s (Error e)). IsError d \<and> reports d e"
  by (auto simp: set_AddError reports_detail)

lemma passed_plan: "d \<in> set (fst req) \<Longrightarrow> fromFramework fw req d"
  by (simp add: fromFramework_def)

lemma passed_ToPtr: "d \<in> set (snd (ToPtr fw (Location (snd req)))) \<Longrightarrow> fromFramework fw req d"
  by (simp add: fromFramework_def)

lemma passed_StateSet: "d \<in> set (StateSet fw m) \<Longrightarrow> fromFramework fw req d"
  by (auto simp: fromFramework_def)

lemma Create_carries:
  assumes "Create fw conn plan r = Returns res"
  shows "errorsCarry (fromFramework fw plan) (Diagnostics res) [''creating'']
           (ValueString (Bucket (snd plan)))"
proof -
  have p1: "errorsCarry (fromFramework fw plan) (fst plan) [''creating''] (ValueString (Bucket (snd plan)))"
    by (rule errorsCarry_passed) (rule passed_plan)
  have p2: "errorsCarry (fromFramework fw plan) (snd (ToPtr fw (Location (snd plan)))) [''creating'']
      (ValueString (Bucket (snd plan)))"
    by (rule errorsCarry_passed) (rule passed_ToPtr)
  have p3: "\<And>m. errorsCarry (fromFramework fw plan) (StateSet fw m) [''creating'']
      (ValueString (Bucket (snd plan)))"
    by (rule errorsCarry_passed) (rule passed_StateSet)
  have p4: "\<And>detail. errorsCarry (fromFramework fw plan)
      [NewErrorDiagnostic (''creating S3 Directory Bucket ('' @ ValueString (Bucket (snd plan)) @ '')'') detail]
      [''creating''] (ValueString (Bucket (snd plan)))"
    using carries_bucket [of "''creating''"] by (intro errorsCarry_single [of "''creating''"]) simp_all
  note p5 = p4 [simplified]
  from assms show ?thesis
    by (auto simp: Create_def Let_def SetState_def errorsCarry_Append errorsCarry_AddError
        errorsCarry_Nil p1 p2 p3 p5 split: if_splits option.splits)
qed

lemma Create_noneSwallowed:
  assumes "Create fw conn plan r = Returns res"
  shows "noneSwallowed (Calls res) (Diagnostics res) (\<lambda>c e. False)"
  using assms
  by (auto simp: Create_def Let_def SetState_def noneSwallowed_Nil noneSwallowed_Cons
      reported_AddError split: if_splits option.splits)


lemma bucket_failed_carries:
  "operation \<in> set operations \<Longrightarrow>
   errorsCarry passed
     [NewErrorDiagnostic (operation @ '' S3 Directory Bucket ('' @ identity @ '')'') detail]
     operations identity"
  by (rule errorsCarry_single [of operation]) (simp_all only: carries_bucket)

lemma Read_carries:
  "errorsCarry (fromFramework fw state) (Diagnostics (Read fw conn state r)) [''reading'']
     (ValueString (ID (snd state)))"
proof -
  have p1: "errorsCarry (fromFramework fw state) (fst state) [''reading''] (ValueString (ID (snd state)))"
    by (rule errorsCarry_passed) (rule passed_plan)
  have p3: "\<And>m. errorsCarry (fromFramework fw state) (StateSet fw m) [''reading'']
      (ValueString (ID (snd state)))"
    by (rule errorsCarry_passed) (rule passed_StateSet)
  note p4 = bucket_failed_carries [of "''reading''" "[''reading'']" "fromFramework fw state"
      "ValueString (ID (snd state))", simplified]
  show ?thesis
    by (auto simp: Read_def Let_def SetState_def errorsCarry_Append errorsCarry_AddError
        errorsCarry_Nil p1 p3 p4 NewResourceNotFoundWarningDiagnostic_def errorsCarry_warning
        split: if_splits sum.splits)
qed

lemma Read_noneSwallowed:
  "noneSwallowed (Calls (Read fw conn state r)) (Diagnostics (Read fw conn state r))
     (exceptedBucket False)"
  by (auto simp: Read_def Let_def SetState_def noneSwallowed_Nil noneSwallowed_Cons
      reported_AddError exceptedBucket_def split: if_splits sum.splits)

lemma DeleteFinish_carries:
  "errorsCarry passed diags [''emptying'', ''deleting''] (ValueString (ID data)) \<Longrightarrow>
   errorsCarry passed (Diagnostics (DeleteFinish data diags err r cs)) [''emptying'', ''deleting'']
     (ValueString (ID data))"
  using bucket_failed_carries [of "''deleting''" "[''emptying'', ''deleting'']" passed
      "ValueString (ID data)", simplified]
  by (auto simp: DeleteFinish_diagnostics errorsCarry_AddError split: option.splits)

lemma Delete_carries:
  "errorsCarry (fromFramework fw state) (Diagnostics (Delete conn state r))
     [''emptying'', ''deleting''] (ValueString (ID (snd state)))"
proof -
  have p1: "errorsCarry (fromFramework fw state) (fst state) [''emptying'', ''deleting'']
      (ValueString (ID (snd state)))"
    by (rule errorsCarry_passed) (rule passed_plan)
  note p4 = bucket_failed_carries [of "''emptying''" "[''emptying'', ''deleting'']"
      "fromFramework fw state" "ValueString (ID (snd state))", simplified]
  show ?thesis
    by (auto simp: Delete_def Let_def errorsCarry_Append errorsCarry_AddError errorsCarry_Nil
        p1 p4 DeleteFinish_carries split: if_splits option.splits)
qed

lemma DeleteFinish_noneSwallowed:
  assumes "noneSwallowed cs diags (exceptedBucket force)"
    and "\<And>ds. noneSwallowed cs ds (exceptedBucket force)"
  shows "noneSwallowed (cs @ [(CallDeleteBucket b, err)])
     (Diagnostics (DeleteFinish data diags err r (cs @ [(CallDeleteBucket b, err)])))
     (exceptedBucket force)"
  using assms(2)
  by (auto simp: DeleteFinish_diagnostics noneSwallowed_append noneSwallowed_Cons noneSwallowed_Nil
      exceptedBucket_def reported_AddError split: option.splits)

lemma Delete_noneSwallowed:
  "noneSwallowed (Calls (Delete conn state r)) (Diagnostics (Delete conn state r))
     (exceptedBucket (ValueBool (ForceDestroy (snd state))))"
proof (cases "HasError (fst state)")
  case True
  then show ?thesis by (simp add: Delete_undecoded noneSwallowed_Nil)
next
  case ok: False
  let ?id = "StringFromFramework (ID (snd state))"
  let ?force = "ValueBool (ForceDestroy (snd state))"
  obtain err r1 where d1: "DeleteBucket conn ?id r = (err, r1)"
    by (cases "DeleteBucket conn ?id r")
  show ?thesis
  proof (cases "ErrCodeEquals err errCodeBucketNotEmpty \<and> ?force")
    case False
    have "noneSwallowed ([] @ [(CallDeleteBucket ?id, err)])
        (Diagnostics (DeleteFinish (snd state) (Append [] (fst state)) err r1
          ([] @ [(CallDeleteBucket ?id, err)])))
        (exceptedBucket ?force)"
      by (rule DeleteFinish_noneSwallowed) (rule noneSwallowed_Nil)+
    then show ?thesis by (simp add: Delete_plain [OF ok d1 False])
  next
    case True
    then have ne: "ErrCodeEquals err errCodeBucketNotEmpty" and force: ?force by simp_all
    then obtain e where e: "err = Some e" by (cases err) auto
    have first: "\<And>ds. noneSwallowed [(CallDeleteBucket ?id, err)] ds (exceptedBucket ?force)"
      using ne force e by (simp add: noneSwallowed_Cons noneSwallowed_Nil exceptedBucket_def)
    obtain err2 r2 where d2: "emptyDirectoryBucket conn (ValueString (ID (snd state))) r1 = (err2, r2)"
      by (cases "emptyDirectoryBucket conn (ValueString (ID (snd state))) r1")
    show ?thesis
    proof (cases err2)
      case (Some e2)
      with d2 have d2': "emptyDirectoryBucket conn (ValueString (ID (snd state))) r1 = (Some e2, r2)"
        by simp
      show ?thesis
        using ne force e
        by (simp add: Delete_drain_fails [OF ok d1 ne force d2'] noneSwallowed_Cons noneSwallowed_Nil
            exceptedBucket_def reported_AddError)
    next
      case None
      with d2 have d2': "emptyDirectoryBucket conn (ValueString (ID (snd state))) r1 = (None, r2)"
        by simp
      obtain err3 r3 where d3: "DeleteBucket conn ?id r2 = (err3, r3)"
        by (cases "DeleteBucket conn ?id r2")
      have two: "\<And>ds. noneSwallowed
          [(CallDeleteBucket ?id, err), (CallEmptyDirectoryBucket (ValueString (ID (snd state))), None)]
          ds (exceptedBucket ?force)"
        using ne force e by (simp add: noneSwallowed_Cons noneSwallowed_Nil exceptedBucket_def)
      have "noneSwallowed
          ([(CallDeleteBucket ?id, err), (CallEmptyDirectoryBucket (ValueString (ID (snd state))), None)]
            @ [(CallDeleteBucket ?id, err3)])
          (Diagnostics (DeleteFinish (snd state) (Append [] (fst state)) err3 r3
            ([(CallDeleteBucket ?id, err), (CallEmptyDirectoryBucket (ValueString (ID (snd state))), None)]
            @ [(CallDeleteBucket ?id, err3)])))
          (exceptedBucket ?force)"
        by (rule DeleteFinish_noneSwallowed) (rule two)+
      then show ?thesis by (simp add: Delete_retry [OF ok d1 ne force d2' d3])
    qed
  qed
qed


lemma find_log:
  "snd (snd (findConnectorProfileByName conn name r)) =
     [(CallDescribeConnectorProfiles [name], snd (fst (DescribeConnectorProfiles conn [name] r)))]"
  by (simp add: findConnectorProfileByName_def Let_def split: option.splits)

lemma find_remote_error:
  "snd (fst (DescribeConnectorProfiles conn [name] r)) = Some e \<Longrightarrow>
   snd (fst (findConnectorProfileByName conn name r)) = Some e"
  by (simp add: findConnectorProfileByName_def Let_def)

lemma profile_failed_carries:
  "operation \<in> set operations \<Longrightarrow>
   errorsCarry passed
     (AppendErrorf [] (operation @ '' AppFlow Connector Profile ('' @ identity @ ''): '' @ text))
     operations identity"
  unfolding AppendErrorf_def append_Nil
  by (rule errorsCarry_single [of operation]) (simp_all only: carries_profile)

lemma profile_failed_reports:
  "\<exists>d \<in> set (AppendErrorf [] (operation @ '' AppFlow Connector Profile ('' @ identity @ ''): '' @ Error e)).
      IsError d \<and> reports d e"
proof -
  have "reports (NewErrorDiagnostic
      ((operation @ '' AppFlow Connector Profile ('' @ identity @ ''): '') @ Error e) []) e"
    by (rule reports_summary)
  then show ?thesis by (simp add: AppendErrorf_def)
qed

lemma appflow_Read_reported:
  assumes "resourceConnectorProfileRead conn d r = Returns res"
  shows "errorsCarry (\<lambda>_. False) (Diags res) [''reading''] (Id d) \<and>
     noneSwallowed (Log res) (Diags res) (exceptedAppFlow (IsNewResource d))"
proof (cases "\<not> IsNewResource d \<and> NotFound (snd (fst (findConnectorProfileByName conn (Id d) r)))")
  case True
  with assms have res: "Diags res = []"
      "Log res = [(CallDescribeConnectorProfiles [Id d], snd (fst (DescribeConnectorProfiles conn [Id d] r)))]"
    by (auto simp: resourceConnectorProfileRead_def Let_def find_log)
  have "noneSwallowed (Log res) (Diags res) (exceptedAppFlow (IsNewResource d))"
  proof (cases "snd (fst (DescribeConnectorProfiles conn [Id d] r))")
    case None
    then show ?thesis by (simp add: res noneSwallowed_Cons noneSwallowed_Nil)
  next
    case (Some e)
    then have "snd (fst (findConnectorProfileByName conn (Id d) r)) = Some e"
      by (rule find_remote_error)
    with True Some show ?thesis
      by (simp add: res noneSwallowed_Cons noneSwallowed_Nil exceptedAppFlow_def)
  qed
  then show ?thesis by (simp add: res errorsCarry_Nil)
next
  case False
  show ?thesis
  proof (cases "snd (fst (findConnectorProfileByName conn (Id d) r))")
    case (Some e)
    with assms False have res: "Diags res = AppendErrorf []
          (''reading'' @ '' AppFlow Connector Profile ('' @ Id d @ ''): '' @ Error e)"
      "Log res = [(CallDescribeConnectorProfiles [Id d], snd (fst (DescribeConnectorProfiles conn [Id d] r)))]"
      by (auto simp: resourceConnectorProfileRead_def Let_def find_log)
    have c: "errorsCarry (\<lambda>_. False) (Diags res) [''reading''] (Id d)"
      unfolding res by (rule profile_failed_carries) simp
    have "noneSwallowed (Log res) (Diags res) (exceptedAppFlow (IsNewResource d))"
    proof (cases "snd (fst (DescribeConnectorProfiles conn [Id d] r))")
      case None
      then show ?thesis by (simp add: res(2) noneSwallowed_Cons noneSwallowed_Nil)
    next
      case remote: (Some e')
      then have "snd (fst (findConnectorProfileByName conn (Id d) r)) = Some e'"
        by (rule find_remote_error)
      with Some have "e' = e" by simp
      with remote show ?thesis
        unfolding res
        by (simp only: noneSwallowed_Cons noneSwallowed_Nil option.case profile_failed_reports simp_thms)
    qed
    with c show ?thesis by simp
  next
    case None
    with assms False have res: "Diags res = []"
      "Log res = [(CallDescribeConnectorProfiles [Id d], snd (fst (DescribeConnectorProfiles conn [Id d] r)))]"
      by (auto simp: resourceConnectorProfileRead_def Let_def find_log split: option.splits)
    have "snd (fst (DescribeConnectorProfiles conn [Id d] r)) = None"
    proof (cases "snd (fst (DescribeConnectorProfiles conn [Id d] r))")
      case (Some e')
      then have "snd (fst (findConnectorProfileByName conn (Id d) r)) = Some e'"
        by (rule find_remote_error)
      with None show ?thesis by simp
    qed simp
    then show ?thesis
      by (simp add: res errorsCarry_Nil noneSwallowed_Cons noneSwallowed_Nil)
  qed
qed

lemma appflow_Delete_reported:
  "errorsCarry (\<lambda>_. False) (Diags (resourceConnectorProfileDelete conn d r)) [''deleting''] (Id d) \<and>
   noneSwallowed (Log (resourceConnectorProfileDelete conn d r))
     (Diags (resourceConnectorProfileDelete conn d r)) (exceptedAppFlow isNew)"
proof (cases "fst (DeleteConnectorProfile conn (Some (attr_name d)) r)")
  case None
  then show ?thesis
    by (simp add: resourceConnectorProfileDelete_def Let_def errorsCarry_Nil noneSwallowed_Cons
        noneSwallowed_Nil IsA_ResourceNotFoundException_def)
next
  case (Some e)
  show ?thesis
  proof (cases "IsA_ResourceNotFoundException (Some e)")
    case True
    with Some show ?thesis
      by (simp add: resourceConnectorProfileDelete_def Let_def errorsCarry_Nil noneSwallowed_Cons
          noneSwallowed_Nil exceptedAppFlow_def)
  next
    case False
    with Some have res: "Diags (resourceConnectorProfileDelete conn d r) = AppendErrorf []
          (''deleting'' @ '' AppFlow Connector Profile ('' @ Id d @ ''): '' @ Error e)"
      "Log (resourceConnectorProfileDelete conn d r) =
         [(CallDeleteConnectorProfile (Some (attr_name d)), Some e)]"
      by (simp_all add: resourceConnectorProfileDelete_def Let_def)
    have c: "errorsCarry (\<lambda>_. False) (Diags (resourceConnectorProfileDelete conn d r)) [''deleting''] (Id d)"
      unfolding res by (rule profile_failed_carries) simp
    have "noneSwallowed (Log (resourceConnectorProfileDelete conn d r))
       (Diags (resourceConnectorProfileDelete conn d r)) (exceptedAppFlow isNew)"
      unfolding res
      by (simp only: noneSwallowed_Cons noneSwallowed_Nil option.case profile_failed_reports simp_thms)
    with c show ?thesis by simp
  qed
qed


lemma appflow_Create_reported:
  assumes "resourceConnectorProfileCreate expand conn d r = Returns res"
  shows "errorsCarry (\<lambda>_. False) (Diags res) [''creating'', ''reading''] (attr_name d) \<and>
     noneSwallowed (Log res) (Diags res) (exceptedAppFlow (IsNewResource d))"
proof -
  from assms obtain config where config: "expandConfigOf expand d = Returns config"
    by (cases "expandConfigOf expand d") (simp_all add: resourceConnectorProfileCreate_def)
  define input where "input =
    \<lparr>CreateConnectorProfileInput.ConnectionMode = attr_connection_mode d,
     CreateConnectorProfileInput.ConnectorProfileName = Some (attr_name d),
     ConnectorType = attr_connector_type d,
     ConnectorLabel = (if length (attr_connector_label d) > 0 then Some (attr_connector_label d) else None),
     CreateConnectorProfileInput.ConnectorProfileConfig = config,
     KmsArn = (if length (attr_kms_arn d) > 0 then Some (attr_kms_arn d) else None)\<rparr>"
  show ?thesis
  proof (cases "fst (CreateConnectorProfile conn input r)")
    case (Some e)
    with assms config have res: "Diags res = AppendErrorf []
          (''creating'' @ '' AppFlow Connector Profile ('' @ attr_name d @ ''): '' @ Error e)"
      "Log res = [(CallCreateConnectorProfile input, Some e)]"
      by (auto simp: resourceConnectorProfileCreate_def Let_def input_def)
    have c: "errorsCarry (\<lambda>_. False) (Diags res) [''creating'', ''reading''] (attr_name d)"
      unfolding res by (rule profile_failed_carries) simp
    have "noneSwallowed (Log res) (Diags res) (exceptedAppFlow (IsNewResource d))"
      unfolding res
      by (simp only: noneSwallowed_Cons noneSwallowed_Nil option.case profile_failed_reports simp_thms)
    with c show ?thesis by simp
  next
    case None
    with assms config obtain res' where
      read: "resourceConnectorProfileRead conn (d\<lparr>Id := attr_name d\<rparr>)
               (snd (CreateConnectorProfile conn input r)) = Returns res'"
      and res: "res = res'\<lparr>Log := [(CallCreateConnectorProfile input, None)] @ Log res'\<rparr>"
      by (cases "resourceConnectorProfileRead conn (d\<lparr>Id := attr_name d\<rparr>)
               (snd (CreateConnectorProfile conn input r))")
         (auto simp: resourceConnectorProfileCreate_def Let_def input_def)
    from appflow_Read_reported [OF read]
    have r1: "errorsCarry (\<lambda>_. False) (Diags res') [''reading''] (attr_name d)"
      and r2: "noneSwallowed (Log res') (Diags res') (exceptedAppFlow (IsNewResource d))"
      by simp_all
    from r1 have "errorsCarry (\<lambda>_. False) (Diags res') [''creating'', ''reading''] (attr_name d)"
      by (rule errorsCarry_more) simp
    with r2 show ?thesis
      by (simp add: res noneSwallowed_Cons)
  qed
qed

lemma appflow_Update_reported:
  assumes "resourceConnectorProfileUpdate expand conn d r = Returns res"
  shows "errorsCarry (\<lambda>_. False) (Diags res) [''updating'', ''reading''] (Id d) \<and>
     noneSwallowed (Log res) (Diags res) (exceptedAppFlow (IsNewResource d))"
proof -
  from assms obtain config where config: "expandConfigOf expand d = Returns config"
    by (cases "expandConfigOf expand d") (simp_all add: resourceConnectorProfileUpdate_def)
  define input where "input =
    \<lparr>UpdateConnectorProfileInput.ConnectionMode = attr_connection_mode d,
     UpdateConnectorProfileInput.ConnectorProfileName = Some (attr_name d),
     UpdateConnectorProfileInput.ConnectorProfileConfig = config\<rparr>"
  show ?thesis
  proof (cases "fst (UpdateConnectorProfile conn input r)")
    case (Some e)
    with assms config have res: "Diags res = AppendErrorf []
          (''updating'' @ '' AppFlow Connector Profile ('' @ Id d @ ''): '' @ Error e)"
      "Log res = [(CallUpdateConnectorProfile input, Some e)]"
      by (auto simp: resourceConnectorProfileUpdate_def Let_def input_def)
    have c: "errorsCarry (\<lambda>_. False) (Diags res) [''updating'', ''reading''] (Id d)"
      unfolding res by (rule profile_failed_carries) simp
    have "noneSwallowed (Log res) (Diags res) (exceptedAppFlow (IsNewResource d))"
      unfolding res
      by (simp only: noneSwallowed_Cons noneSwallowed_Nil option.case profile_failed_reports simp_thms)
    with c show ?thesis by simp
  next
    case None
    with assms config obtain res' where
      read: "resourceConnectorProfileRead conn d
               (snd (UpdateConnectorProfile conn input r)) = Returns res'"
      and res: "res = res'\<lparr>Log := [(CallUpdateConnectorProfile input, None)] @ Log res'\<rparr>"
      by (cases "resourceConnectorProfileRead conn d
               (snd (UpdateConnectorProfile conn input r))")
         (auto simp: resourceConnectorProfileUpdate_def Let_def input_def)
    from appflow_Read_reported [OF read]
    have r1: "errorsCarry (\<lambda>_. False) (Diags res') [''reading''] (Id d)"
      and r2: "noneSwallowed (Log res') (Diags res') (exceptedAppFlow (IsNewResource d))"
      by simp_all
    from r1 have "errorsCarry (\<lambda>_. False) (Diags res') [''updating'', ''reading''] (Id d)"
      by (rule errorsCarry_more) simp
    with r2 show ?thesis
      by (simp add: res noneSwallowed_Cons)
  qed
qed

text \<open>
  C7, as the code has it. Of the directory bucket's Create, Read and Delete and the
  connector profile's Create, Read, Update and Delete: every error diagnostic the
  operation returns either is one the framework handed to it (while decoding the plan or
  the state, converting the \<open>location\<close> block or storing the new state; the connector
  profile has none of these) and is passed on unchanged, or carries the name of the
  operation that failed and the resource's identity. Every error a remote call returned
  is reported by an error diagnostic, except not-found on a read of an object that is not
  new, not-found on a delete, and not-empty on a delete with \<open>force_destroy\<close>.
\<close>

theorem surfaced_errors_carry_identity:
  "(Create fw conn plan r = Returns res \<longrightarrow>
      errorsCarry (fromFramework fw plan) (Diagnostics res) [''creating'']
        (ValueString (Bucket (snd plan))) \<and>
      noneSwallowed (Calls res) (Diagnostics res) (\<lambda>c e. False)) \<and>
   errorsCarry (fromFramework fw state) (Diagnostics (Read fw conn state r)) [''reading'']
     (ValueString (ID (snd state))) \<and>
   noneSwallowed (Calls (Read fw conn state r)) (Diagnostics (Read fw conn state r))
     (exceptedBucket False) \<and>
   errorsCarry (fromFramework fw state) (Diagnostics (Delete conn state r))
     [''emptying'', ''deleting''] (ValueString (ID (snd state))) \<and>
   noneSwallowed (Calls (Delete conn state r)) (Diagnostics (Delete conn state r))
     (exceptedBucket (ValueBool (ForceDestroy (snd state)))) \<and>
   (resourceConnectorProfileCreate expand aconn d ar = Returns ares \<longrightarrow>
      errorsCarry (\<lambda>_. False) (Diags ares) [''creating'', ''reading''] (attr_name d) \<and>
      noneSwallowed (Log ares) (Diags ares) (exceptedAppFlow (IsNewResource d))) \<and>
   (resourceConnectorProfileRead aconn d ar = Returns ares \<longrightarrow>
      errorsCarry (\<lambda>_. False) (Diags ares) [''reading''] (Id d) \<and>
      noneSwallowed (Log ares) (Diags ares) (exceptedAppFlow (IsNewResource d))) \<and>
   (resourceConnectorProfileUpdate expand aconn d ar = Returns ares \<longrightarrow>
      errorsCarry (\<lambda>_. False) (Diags ares) [''updating'', ''reading''] (Id d) \<and>
      noneSwallowed (Log ares) (Diags ares) (exceptedAppFlow (IsNewResource d))) \<and>
   errorsCarry (\<lambda>_. False) (Diags (resourceConnectorProfileDelete aconn d ar)) [''deleting''] (Id d) \<and>
   noneSwallowed (Log (resourceConnectorProfileDelete aconn d ar))
     (Diags (resourceConnectorProfileDelete aconn d ar)) (exceptedAppFlow (IsNewResource d))"
  using Create_carries [of fw conn plan r res] Create_noneSwallowed [of fw conn plan r res]
    Read_carries [of fw state conn r] Read_noneSwallowed [of fw conn state r]
    Delete_carries [of fw state conn r] Delete_noneSwallowed [of conn state r]
    appflow_Create_reported [of expand aconn d ar ares]
    appflow_Read_reported [of aconn d ar ares]
    appflow_Update_reported [of expand aconn d ar ares]
    appflow_Delete_reported [of aconn d ar "IsNewResource d"]
  by blast


lemma Create_access_denied:
  "Create framework0 (scriptedClient [Some accessDeniedError]) ([], plan0) 0 =
     Returns
       \<lparr>Diagnostics =
          [NewErrorDiagnostic ''creating S3 Directory Bucket (b--usw2-az2--x-s3)'' ''Access Denied''],
        State = None, Remote = 1,
        Calls = [(CallCreateBucket
                    \<lparr>InBucket = Some ''b--usw2-az2--x-s3'', InDataRedundancy = [],
                     InBucketType = ''Directory'', InLocationName = Some ''usw2-az2'',
                     InLocationType = []\<rparr>,
                  Some accessDeniedError)]\<rparr>"
  by (simp add: Create_def Let_def framework0_def plan0_def location0_def scriptedClient_def
      answer_def HasError_Nil ValueEnum_def accessDeniedError_def Error_def AddError_def
      Append.simps)

theorem surfaced_errors_carry_identity_witness:
  "carries
     (NewErrorDiagnostic ''creating S3 Directory Bucket (b--usw2-az2--x-s3)'' ''Access Denied'')
     ''creating'' ''b--usw2-az2--x-s3'' \<and>
   reports
     (NewErrorDiagnostic ''creating S3 Directory Bucket (b--usw2-az2--x-s3)'' ''Access Denied'')
     accessDeniedError"
proof -
  let ?d = "NewErrorDiagnostic ''creating S3 Directory Bucket (b--usw2-az2--x-s3)'' ''Access Denied''"
  let ?calls = "[(CallCreateBucket
                    \<lparr>InBucket = Some ''b--usw2-az2--x-s3'', InDataRedundancy = [],
                     InBucketType = ''Directory'', InLocationName = Some ''usw2-az2'',
                     InLocationType = []\<rparr>,
                  Some accessDeniedError)]"
  from surfaced_errors_carry_identity
    [of framework0 "scriptedClient [Some accessDeniedError]" "([], plan0)" 0
        "\<lparr>Diagnostics = [?d], State = None, Remote = 1, Calls = ?calls\<rparr>"
        "([], plan0)" "\<lambda>m. m" "scriptedAppFlow [] []" d0 0
        "\<lparr>Diags = [], Data = d0, Conn = 0, Log = []\<rparr>"]
    Create_access_denied
  have c: "errorsCarry (fromFramework framework0 ([], plan0)) [?d] [''creating'']
        (ValueString (Bucket (snd ([] :: diagnostic list, plan0))))"
    and n: "noneSwallowed ?calls [?d] (\<lambda>c e. False)"
    by simp_all
  have nf: "\<not> fromFramework framework0 ([], plan0) ?d"
    by (simp add: fromFramework_def framework0_def plan0_def)
  from c nf have "carries ?d ''creating'' ''b--usw2-az2--x-s3''"
    by (simp add: errorsCarry_def plan0_def)
  moreover from n have "reports ?d accessDeniedError"
    by (simp add: noneSwallowed_def)
  ultimately show ?thesis by simp
qed

text \<open>
  C7 as stated fails: a Create whose plan does not decode surfaces the framework's
  diagnostic as it is, and that error names neither the operation nor the bucket.
\<close>

theorem passed_on_diagnostic_counterexample:
  "Create framework0 (scriptedClient []) ([conversionError], plan0) 0 =
     Returns \<lparr>Diagnostics = [conversionError], State = None, Remote = 0, Calls = []\<rparr> \<and>
   IsError conversionError \<and>
   ValueString (Bucket plan0) = ''b--usw2-az2--x-s3'' \<and>
   \<not> carries conversionError ''creating'' ''b--usw2-az2--x-s3''"
proof -
  have h: "HasError [conversionError]"
    by (simp add: conversionError_def HasError_error)
  have c: "Create framework0 (scriptedClient []) ([conversionError], plan0) 0 =
     Returns \<lparr>Diagnostics = [conversionError], State = None, Remote = 0, Calls = []\<rparr>"
    by (simp add: Create_def Let_def h Append.simps)
  have e: "IsError conversionError"
    by (simp add: conversionError_def IsError_def NewErrorDiagnostic_def)
  have b: "ValueString (Bucket plan0) = ''b--usw2-az2--x-s3''"
    by (simp add: plan0_def)
  have n: "\<not> carries conversionError ''creating'' ''b--usw2-az2--x-s3''"
    by (simp add: carries_def conversionError_def NewErrorDiagnostic_def sublist_Cons_right)
  from c e b n show ?thesis by simp
qed

end
